theory Spec2Isabelle
  imports Complex_Main "HOL-Library.AList"
begin

section \<open>Python values and strings\<close>

text \<open>
  The three services (\<open>bulk_pdf_extractor.py\<close>, \<open>simple_web_crawler.py\<close>,
  \<open>bulk_web_crawler.py\<close>) build Python dicts and lists and print them as JSON.
  A Python value is a \<open>pyval\<close>; a dict is an association list with distinct keys kept in
  insertion order, read with \<open>map_of\<close> and written with \<open>AList.update\<close> (an existing key
  keeps its place, a new key goes to the end, as in Python).

  Text is ASCII: a \<open>char\<close> is one code point below 128. Code points beyond ASCII are
  outside the model (Python's \<open>lower\<close>, \<open>isupper\<close>, \<open>\d\<close>, \<open>\s\<close> and the
  case-insensitive flag have further cases there).

  An exception is the string of its message (\<open>str(e)\<close>); a function that can raise returns
  \<open>exn + 'a\<close>, with \<open>Inl\<close> for the exception.
\<close>

datatype pyval =
    PNone
  | PBool bool
  | PInt int
  | PFloat rat
  | PStr string
  | PList "pyval list"
  | PDict "(string \<times> pyval) list"

type_synonym dict = "(string \<times> pyval) list"
type_synonym exn = string

text \<open>Truthiness, as \<open>if x:\<close> and \<open>not x\<close> read a value.\<close>

fun truthy :: "pyval \<Rightarrow> bool" where
  "truthy PNone = False"
| "truthy (PBool b) = b"
| "truthy (PInt i) = (i \<noteq> 0)"
| "truthy (PFloat r) = (r \<noteq> 0)"
| "truthy (PStr s) = (s \<noteq> [])"
| "truthy (PList xs) = (xs \<noteq> [])"
| "truthy (PDict d) = (d \<noteq> [])"

text \<open>\<open>d.get(k)\<close>: the value, or \<open>None\<close> when the key is absent.\<close>

definition dict_get :: "dict \<Rightarrow> string \<Rightarrow> pyval" where
  "dict_get d k = (case map_of d k of Some v \<Rightarrow> v | None \<Rightarrow> PNone)"

text \<open>\<open>d.get(k, default)\<close>.\<close>

definition dict_get_default :: "dict \<Rightarrow> string \<Rightarrow> pyval \<Rightarrow> pyval" where
  "dict_get_default d k dflt = (case map_of d k of Some v \<Rightarrow> v | None \<Rightarrow> dflt)"

text \<open>\<open>d[k] = v\<close>.\<close>

definition dict_set :: "dict \<Rightarrow> string \<Rightarrow> pyval \<Rightarrow> dict" where
  "dict_set d k v = AList.update k v d"

text \<open>\<open>d.update(e)\<close>: the items of \<open>e\<close> are stored in their order.\<close>

definition dict_update :: "dict \<Rightarrow> dict \<Rightarrow> dict" where
  "dict_update d e = foldl (\<lambda>acc (k, v). AList.update k v acc) d e"

definition is_digit :: "char \<Rightarrow> bool" where
  "is_digit c = (c \<in> set ''0123456789'')"

definition is_upper :: "char \<Rightarrow> bool" where
  "is_upper c = (c \<in> set ''ABCDEFGHIJKLMNOPQRSTUVWXYZ'')"

definition is_lower :: "char \<Rightarrow> bool" where
  "is_lower c = (c \<in> set ''abcdefghijklmnopqrstuvwxyz'')"

definition is_alpha :: "char \<Rightarrow> bool" where
  "is_alpha c = (is_upper c \<or> is_lower c)"

text \<open>
  Whitespace as \<open>str.strip()\<close>, \<open>str.isspace()\<close> and the pattern \<open>\s\<close> read it below 128:
  tab, line feed, vertical tab, form feed, carriage return, the four separators
  0x1C to 0x1F, and space.
\<close>

definition is_space :: "char \<Rightarrow> bool" where
  "is_space c = (c \<in> set [CHR 0x09, CHR 0x0A, CHR 0x0B, CHR 0x0C, CHR 0x0D,
                             CHR 0x1C, CHR 0x1D, CHR 0x1E, CHR 0x1F, CHR 0x20])"

text \<open>A word character of \<open>\b\<close> and \<open>\w\<close>: a letter, a digit or the underscore.\<close>

definition is_word :: "char \<Rightarrow> bool" where
  "is_word c = (is_alpha c \<or> is_digit c \<or> c = CHR ''_'')"

definition lower_char :: "char \<Rightarrow> char" where
  "lower_char c =
     (case map_of (zip ''ABCDEFGHIJKLMNOPQRSTUVWXYZ'' ''abcdefghijklmnopqrstuvwxyz'') c of
        Some d \<Rightarrow> d
      | None \<Rightarrow> c)"

definition upper_char :: "char \<Rightarrow> char" where
  "upper_char c =
     (case map_of (zip ''abcdefghijklmnopqrstuvwxyz'' ''ABCDEFGHIJKLMNOPQRSTUVWXYZ'') c of
        Some d \<Rightarrow> d
      | None \<Rightarrow> c)"

text \<open>\<open>s.lower()\<close>.\<close>

definition lower :: "string \<Rightarrow> string" where
  "lower s = map lower_char s"

text \<open>\<open>s.strip()\<close>.\<close>

definition strip :: "string \<Rightarrow> string" where
  "strip s = rev (dropWhile is_space (rev (dropWhile is_space s)))"

text \<open>
  \<open>s.isupper()\<close>: at least one cased character, and no lower-case one.
\<close>

definition isupper :: "string \<Rightarrow> bool" where
  "isupper s = (list_ex is_upper s \<and> \<not> list_ex is_lower s)"

text \<open>
  \<open>s.title()\<close>: a cased character is put in upper case when the character before it is
  not cased (or there is none), in lower case otherwise.
\<close>

fun title_from :: "bool \<Rightarrow> string \<Rightarrow> string" where
  "title_from prev [] = []"
| "title_from prev (c # cs) =
     (if prev then lower_char c else upper_char c) # title_from (is_alpha c) cs"

definition title :: "string \<Rightarrow> string" where
  "title s = title_from False s"

text \<open>\<open>s.startswith(p)\<close>, \<open>s.endswith(p)\<close> and \<open>p in s\<close>.\<close>

fun startswith :: "string \<Rightarrow> string \<Rightarrow> bool" where
  "startswith s [] = True"
| "startswith [] (p # ps) = False"
| "startswith (c # cs) (p # ps) = (c = p \<and> startswith cs ps)"

definition endswith :: "string \<Rightarrow> string \<Rightarrow> bool" where
  "endswith s p = startswith (rev s) (rev p)"

fun contains :: "string \<Rightarrow> string \<Rightarrow> bool" where
  "contains [] p = (p = [])"
| "contains (c # cs) p = (startswith (c # cs) p \<or> contains cs p)"

text \<open>\<open>any(k in s for k in ks)\<close>.\<close>

definition contains_any :: "string \<Rightarrow> string list \<Rightarrow> bool" where
  "contains_any s ks = list_ex (contains s) ks"

text \<open>\<open>s.split(d)\<close> for a separator of one character: never the empty list.\<close>

fun split_on :: "char \<Rightarrow> string \<Rightarrow> string list" where
  "split_on d [] = [[]]"
| "split_on d (c # cs) =
     (if c = d then [] # split_on d cs
      else (case split_on d cs of
              [] \<Rightarrow> [[c]]
            | x # xs \<Rightarrow> (c # x) # xs))"

text \<open>
  \<open>int(s)\<close> and \<open>float(s)\<close> on the strings the patterns of this program capture: a run of
  digits, and a run of digits with an optional fraction. Any other string is reported
  as \<open>ValueError\<close> here (Python accepts further forms, such as signs and exponents, which
  no pattern below can capture). \<open>float\<close> rounds the decimal to the nearest double; the
  model keeps the exact decimal. The interpreter's limit on the number of digits of
  \<open>int(s)\<close> is not modelled.
\<close>

definition digit_val :: "char \<Rightarrow> int" where
  "digit_val c = (case map_of (zip ''0123456789'' [0, 1, 2, 3, 4, 5, 6, 7, 8, 9]) c of
                    Some n \<Rightarrow> n
                  | None \<Rightarrow> 0)"

definition digits_val :: "string \<Rightarrow> int" where
  "digits_val s = foldl (\<lambda>acc c. 10 * acc + digit_val c) 0 s"

definition is_digits :: "string \<Rightarrow> bool" where
  "is_digits s = (s \<noteq> [] \<and> list_all is_digit s)"

definition py_int :: "string \<Rightarrow> exn + int" where
  "py_int s = (if is_digits s then Inr (digits_val s) else Inl ''ValueError'')"

definition py_float :: "string \<Rightarrow> exn + rat" where
  "py_float s =
     (let ip = takeWhile (\<lambda>c. c \<noteq> CHR ''.'') s;
          tl = dropWhile (\<lambda>c. c \<noteq> CHR ''.'') s
      in if tl = [] then
           (if is_digits ip then Inr (of_int (digits_val ip)) else Inl ''ValueError'')
         else
           (let fp = drop 1 tl
            in if is_digits ip \<and> is_digits fp
               then Inr (of_int (digits_val ip) + of_int (digits_val fp) / 10 ^ length fp)
               else Inl ''ValueError''))"

section \<open>Regular expressions\<close>

text \<open>
  The patterns of the program use character classes, greedy repetition of a class,
  sequence, alternation, optional groups, capturing groups and the word boundary
  \<open>\b\<close>; no pattern repeats anything but a class, none is lazy or anchored.

  \<open>ms r st\<close> lists every way \<open>r\<close> matches at the state \<open>st\<close>, in the order Python's
  backtracking matcher tries them: the first element is the match Python reports.
  A state is the text before the position (reversed, for \<open>\b\<close>), the text from the
  position on, and the groups captured so far (latest first).
  The case-insensitive flag is written into the classes (\<open>ci\<close>, \<open>liti\<close>).
\<close>

datatype rx =
    Eps
  | Cls "char \<Rightarrow> bool"
  | Rep "char \<Rightarrow> bool" nat "nat option"
  | Seq rx rx
  | Alt rx rx
  | Opt rx
  | Grp nat rx
  | WordB

type_synonym mstate = "string \<times> string \<times> (nat \<times> string) list"

definition at_boundary :: "string \<Rightarrow> string \<Rightarrow> bool" where
  "at_boundary bef rest =
     ((case bef of [] \<Rightarrow> False | b # _ \<Rightarrow> is_word b) \<noteq>
      (case rest of [] \<Rightarrow> False | c # _ \<Rightarrow> is_word c))"

fun ms :: "rx \<Rightarrow> mstate \<Rightarrow> mstate list" where
  "ms Eps st = [st]"
| "ms (Cls p) (bef, rest, g) =
     (case rest of
        [] \<Rightarrow> []
      | c # cs \<Rightarrow> if p c then [(c # bef, cs, g)] else [])"
| "ms (Rep p lo hi) (bef, rest, g) =
     (let n = length (takeWhile p rest);
          m = (case hi of None \<Rightarrow> n | Some h \<Rightarrow> min n h)
      in map (\<lambda>k. (rev (take k rest) @ bef, drop k rest, g)) (rev [lo..<Suc m]))"
| "ms (Seq a b) st = concat (map (ms b) (ms a st))"
| "ms (Alt a b) st = ms a st @ ms b st"
| "ms (Opt a) st = ms a st @ [st]"
| "ms (Grp i a) (bef, rest, g) =
     map (\<lambda>(bef', rest', g'). (bef', rest', (i, rev (take (length bef' - length bef) bef')) # g'))
         (ms a (bef, rest, g))"
| "ms WordB (bef, rest, g) = (if at_boundary bef rest then [(bef, rest, g)] else [])"

text \<open>
  A match object: the text skipped before the match, the matched text (\<open>group(0)\<close>), the
  text after it, and the captured groups.
\<close>

type_synonym rmatch = "string \<times> string \<times> string \<times> (nat \<times> string) list"

text \<open>\<open>re.search\<close> from a position: the leftmost position with a match, and its first match.\<close>

fun search_from :: "rx \<Rightarrow> string \<Rightarrow> string \<Rightarrow> rmatch option" where
  "search_from r bef [] =
     (case ms r (bef, [], []) of
        (bef', rest', g) # _ \<Rightarrow> Some ([], rev (take (length bef' - length bef) bef'), rest', g)
      | [] \<Rightarrow> None)"
| "search_from r bef (c # cs) =
     (case ms r (bef, c # cs, []) of
        (bef', rest', g) # _ \<Rightarrow> Some ([], rev (take (length bef' - length bef) bef'), rest', g)
      | [] \<Rightarrow> map_option (\<lambda>(pre, m, post, g). (c # pre, m, post, g)) (search_from r (c # bef) cs))"

definition re_search :: "rx \<Rightarrow> string \<Rightarrow> rmatch option" where
  "re_search r s = search_from r [] s"

text \<open>\<open>match.group(0)\<close>, and \<open>match.group(i)\<close>: \<open>None\<close> for a group that took no part.\<close>

definition group0 :: "rmatch \<Rightarrow> string" where
  "group0 m = (case m of (pre, txt, post, g) \<Rightarrow> txt)"

definition match_group :: "rmatch \<Rightarrow> nat \<Rightarrow> string option" where
  "match_group m i = (case m of (pre, txt, post, g) \<Rightarrow> map_of g i)"

text \<open>
  \<open>re.split\<close> for a pattern without groups: the pieces between successive matches.
  Every pattern the program splits on starts with a line feed, so a match is never
  empty; the model stops at an empty match.
\<close>

function split_from :: "rx \<Rightarrow> string \<Rightarrow> string \<Rightarrow> string list" where
  "split_from r bef rest =
     (case search_from r bef rest of
        None \<Rightarrow> [rest]
      | Some (pre, m, post, g) \<Rightarrow>
          if m \<noteq> [] \<and> length post < length rest
          then pre # split_from r (rev m @ rev pre @ bef) post
          else [rest])"
  by pat_completeness auto
termination
  by (relation "measure (\<lambda>(r, bef, rest). length rest)") auto

definition re_split :: "rx \<Rightarrow> string \<Rightarrow> string list" where
  "re_split r s = split_from r [] s"

text \<open>Pattern building: literals, case-insensitive literals and classes, sequences, alternatives.\<close>

definition ch :: "char \<Rightarrow> char \<Rightarrow> bool" where
  "ch c x = (x = c)"

definition ci :: "char \<Rightarrow> char \<Rightarrow> bool" where
  "ci c x = (lower_char x = lower_char c)"

definition one_of :: "string \<Rightarrow> char \<Rightarrow> bool" where
  "one_of s x = (x \<in> set s)"

fun lit :: "string \<Rightarrow> rx" where
  "lit [] = Eps"
| "lit (c # cs) = Seq (Cls (ch c)) (lit cs)"

fun liti :: "string \<Rightarrow> rx" where
  "liti [] = Eps"
| "liti (c # cs) = Seq (Cls (ci c)) (liti cs)"

fun seqs :: "rx list \<Rightarrow> rx" where
  "seqs [] = Eps"
| "seqs [r] = r"
| "seqs (r # rs) = Seq r (seqs rs)"

fun alts :: "rx list \<Rightarrow> rx" where
  "alts [] = Eps"
| "alts [r] = r"
| "alts (r # rs) = Alt r (alts rs)"

text \<open>\<open>x*\<close>, \<open>x+\<close> and \<open>x?\<close> on a class.\<close>

definition many :: "(char \<Rightarrow> bool) \<Rightarrow> rx" where
  "many p = Rep p 0 None"

definition many1 :: "(char \<Rightarrow> bool) \<Rightarrow> rx" where
  "many1 p = Rep p 1 None"

definition opt1 :: "(char \<Rightarrow> bool) \<Rightarrow> rx" where
  "opt1 p = Rep p 0 (Some 1)"

text \<open>The token \<open>\d+(?:\.\d+)?\<close>.\<close>

definition number_rx :: rx where
  "number_rx = Seq (many1 is_digit) (Opt (Seq (Cls (ch CHR ''.'')) (many1 is_digit)))"

section \<open>Field parsers (\<open>bulk_pdf_extractor.py\<close>)\<close>

text \<open>
  The patterns \<open>(\d+(?:\.\d+)?)\s*(g|kg|gram|kilogram)?\<close> and
  \<open>(\d+(?:\.\d+)?)\s*(ml|l|liter|litre|oz)?\<close>, both case-insensitive, and \<open>(\d+)\s*%\<close>.
\<close>

definition weight_units :: "string list" where
  "weight_units = [''g'', ''kg'', ''gram'', ''kilogram'']"

definition capacity_units :: "string list" where
  "capacity_units = [''ml'', ''l'', ''liter'', ''litre'', ''oz'']"

definition measure_rx :: "string list \<Rightarrow> rx" where
  "measure_rx units = Seq (Grp 1 number_rx) (Seq (many is_space) (Opt (Grp 2 (alts (map liti units)))))"

definition weight_rx :: rx where
  "weight_rx = measure_rx weight_units"

definition capacity_rx :: rx where
  "capacity_rx = measure_rx capacity_units"

definition percent_rx :: rx where
  "percent_rx = Seq (Grp 1 (many1 is_digit)) (Seq (many is_space) (Cls (ch CHR ''%'')))"

text \<open>\<open>float(match.group(i))\<close> and \<open>int(match.group(i))\<close>: a \<open>TypeError\<close> on \<open>None\<close>.\<close>

definition float_group :: "rmatch \<Rightarrow> nat \<Rightarrow> exn + rat" where
  "float_group m i = (case match_group m i of None \<Rightarrow> Inl ''TypeError'' | Some t \<Rightarrow> py_float t)"

definition int_group :: "rmatch \<Rightarrow> nat \<Rightarrow> exn + int" where
  "int_group m i = (case match_group m i of None \<Rightarrow> Inl ''TypeError'' | Some t \<Rightarrow> py_int t)"

text \<open>\<open>match.group(i).lower() if match.group(i) else dflt\<close>.\<close>

definition unit_or :: "rmatch \<Rightarrow> nat \<Rightarrow> string \<Rightarrow> string" where
  "unit_or m i dflt =
     (case match_group m i of
        Some u \<Rightarrow> if u \<noteq> [] then lower u else dflt
      | None \<Rightarrow> dflt)"

definition parse_weight :: "string \<Rightarrow> exn + dict" where
  "parse_weight v =
     (case re_search weight_rx v of
        Some m \<Rightarrow>
          (case float_group m 1 of
             Inl e \<Rightarrow> Inl e
           | Inr w \<Rightarrow> Inr [(''weight'', PFloat w), (''weightUnit'', PStr (unit_or m 2 ''g''))])
      | None \<Rightarrow> Inr [])"

definition parse_capacity :: "string \<Rightarrow> exn + dict" where
  "parse_capacity v =
     (case re_search capacity_rx v of
        Some m \<Rightarrow>
          (case float_group m 1 of
             Inl e \<Rightarrow> Inl e
           | Inr w \<Rightarrow> Inr [(''capacity'', PFloat w), (''capacityUnit'', PStr (unit_or m 2 ''ml''))])
      | None \<Rightarrow> Inr [])"

definition extract_percentage :: "string \<Rightarrow> exn + pyval" where
  "extract_percentage t =
     (case re_search percent_rx t of
        Some m \<Rightarrow> (case int_group m 1 of Inl e \<Rightarrow> Inl e | Inr n \<Rightarrow> Inr (PInt n))
      | None \<Rightarrow> Inr PNone)"

section \<open>Table interpreter (\<open>bulk_pdf_extractor.py\<close>)\<close>

text \<open>
  A table of \<open>pdfplumber\<close> is a list of rows, a row a list of cells, a cell a string or
  \<open>None\<close>. \<open>cell_step\<close> is the body of the loop of \<open>extract_product_from_table_row\<close> for a
  cell that passed \<open>i < len(headers) and cell\<close>; \<open>row_loop\<close> is the loop.
\<close>

type_synonym cell = "string option"
type_synonym table = "cell list list"

definition cell_truthy :: "cell \<Rightarrow> bool" where
  "cell_truthy c = (case c of None \<Rightarrow> False | Some t \<Rightarrow> t \<noteq> [])"

definition cell_step :: "string \<Rightarrow> string \<Rightarrow> dict \<Rightarrow> exn + dict" where
  "cell_step h c product =
     (let header = lower h in
      if contains_any header [''name'', ''product'', ''item'', ''title'']
        then Inr (dict_set product ''productName'' (PStr (strip c)))
      else if contains_any header [''description'', ''desc'', ''details'']
        then Inr (dict_set product ''description'' (PStr (strip c)))
      else if contains header ''material''
        then Inr (dict_set product ''materialType'' (PStr (strip c)))
      else if contains_any header [''weight'', ''mass'']
        then (case parse_weight c of Inl e \<Rightarrow> Inl e | Inr d \<Rightarrow> Inr (dict_update product d))
      else if contains_any header [''capacity'', ''volume'', ''size'']
        then (case parse_capacity c of Inl e \<Rightarrow> Inl e | Inr d \<Rightarrow> Inr (dict_update product d))
      else if contains_any header [''color'', ''colour'']
        then Inr (dict_set product ''color'' (PStr (strip c)))
      else if contains_any header [''sku'', ''code'', ''ref'']
        then Inr (dict_set product ''sku'' (PStr (strip c)))
      else if contains_any header [''recycle'', ''recycled'']
        then (case extract_percentage c of
                Inl e \<Rightarrow> Inl e
              | Inr recycled \<Rightarrow>
                  Inr (if truthy recycled then dict_set product ''recycledContent'' recycled
                       else product))
      else Inr product)"

fun row_loop :: "string list \<Rightarrow> cell list \<Rightarrow> dict \<Rightarrow> exn + dict" where
  "row_loop hs [] product = Inr product"
| "row_loop [] (c # cs) product = Inr product"
| "row_loop (h # hs) (c # cs) product =
     (case c of
        None \<Rightarrow> row_loop hs cs product
      | Some t \<Rightarrow>
          if t \<noteq> [] then
            (case cell_step h t product of
               Inl e \<Rightarrow> Inl e
             | Inr product' \<Rightarrow> row_loop hs cs product')
          else row_loop hs cs product)"

definition extract_product_from_table_row :: "string list \<Rightarrow> cell list \<Rightarrow> exn + dict option" where
  "extract_product_from_table_row headers row =
     (if row = [] \<or> headers = [] then Inr None
      else (case row_loop headers row [] of
              Inl e \<Rightarrow> Inl e
            | Inr product \<Rightarrow>
                Inr (if truthy (dict_get product ''productName'') then Some product else None)))"

text \<open>
  \<open>process_product_table\<close>: the first loop finds the header (the first row with a
  non-empty cell, lower-cased) and the data rows (the later rows with a non-empty
  cell); the second appends the product of each data row that has one.
\<close>

definition scan_row :: "string list \<times> cell list list \<Rightarrow> cell list \<Rightarrow> string list \<times> cell list list" where
  "scan_row acc row =
     (case acc of (headers, data_rows) \<Rightarrow>
        if row \<noteq> [] \<and> list_ex cell_truthy row then
          (if headers = []
           then (map (\<lambda>c. case c of None \<Rightarrow> [] | Some t \<Rightarrow> if t \<noteq> [] then lower t else []) row,
                 data_rows)
           else (headers, data_rows @ [row]))
        else (headers, data_rows))"

fun rows_loop :: "string list \<Rightarrow> cell list list \<Rightarrow> dict list \<Rightarrow> exn + dict list" where
  "rows_loop headers [] products = Inr products"
| "rows_loop headers (row # rows) products =
     (case extract_product_from_table_row headers row of
        Inl e \<Rightarrow> Inl e
      | Inr None \<Rightarrow> rows_loop headers rows products
      | Inr (Some product) \<Rightarrow>
          if product \<noteq> [] \<and> truthy (dict_get product ''productName'')
          then rows_loop headers rows (products @ [product])
          else rows_loop headers rows products)"

definition process_product_table :: "table \<Rightarrow> dict list \<Rightarrow> exn + dict list" where
  "process_product_table table products =
     (if table = [] \<or> length table < 2 then Inr products
      else (case foldl scan_row ([], []) table of
              (headers, data_rows) \<Rightarrow> rows_loop headers data_rows products))"

section \<open>Sequencing of calls that can raise\<close>

fun bind_exn :: "exn + 'a \<Rightarrow> ('a \<Rightarrow> exn + 'b) \<Rightarrow> exn + 'b" where
  "bind_exn (Inl e) f = Inl e"
| "bind_exn (Inr x) f = f x"

text \<open>A \<open>for\<close> loop over a list that updates a state and stops at the first exception.\<close>

fun fold_exn :: "('s \<Rightarrow> 'a \<Rightarrow> exn + 's) \<Rightarrow> 's \<Rightarrow> 'a list \<Rightarrow> exn + 's" where
  "fold_exn f s [] = Inr s"
| "fold_exn f s (x # xs) = bind_exn (f s x) (\<lambda>s'. fold_exn f s' xs)"

text \<open>\<open>v.lower()\<close> and \<open>len(v)\<close> on a value: defined on strings (and lists), an error on \<open>None\<close>.\<close>

fun py_lower :: "pyval \<Rightarrow> exn + string" where
  "py_lower (PStr s) = Inr (lower s)"
| "py_lower v = Inl ''AttributeError''"

fun py_len :: "pyval \<Rightarrow> exn + nat" where
  "py_len (PStr s) = Inr (length s)"
| "py_len (PList xs) = Inr (length xs)"
| "py_len (PDict d) = Inr (length d)"
| "py_len v = Inl ''TypeError''"

text \<open>\<open>match.group(i).strip()\<close>: an \<open>AttributeError\<close> on \<open>None\<close>.\<close>

definition strip_group :: "rmatch \<Rightarrow> nat \<Rightarrow> exn + string" where
  "strip_group m i = (case match_group m i of None \<Rightarrow> Inl ''AttributeError'' | Some t \<Rightarrow> Inr (strip t))"

definition lower_group :: "rmatch \<Rightarrow> nat \<Rightarrow> exn + string" where
  "lower_group m i = (case match_group m i of None \<Rightarrow> Inl ''AttributeError'' | Some t \<Rightarrow> Inr (lower t))"

text \<open>\<open>re.search(p, s)\<close> read as a condition.\<close>

definition re_found :: "rx \<Rightarrow> string \<Rightarrow> bool" where
  "re_found r s = (re_search r s \<noteq> None)"

section \<open>Text segmenter and section record builder (\<open>bulk_pdf_extractor.py\<close>)\<close>

text \<open>
  The five delimiters of \<open>split_into_product_sections\<close>, case-insensitive
  (so \<open>[A-Z]\<close> is any letter). The four bullet characters of the third are beyond
  ASCII: no character of the model is one of them.
\<close>

definition nl :: char where
  "nl = CHR 0x0A"

definition is_bullet :: "char \<Rightarrow> bool" where
  "is_bullet c = False"

definition delimiters :: "rx list" where
  "delimiters =
     [seqs [Cls (ch nl), many is_space, Cls is_alpha, many1 (\<lambda>c. is_alpha c \<or> is_space c), Cls (ch nl)],
      seqs [Cls (ch nl), many is_space, many1 is_digit, Cls (ch CHR ''.''), many1 is_space],
      seqs [Cls (ch nl), many is_space, Cls is_bullet, many1 is_space],
      seqs [Cls (ch nl), many is_space, liti ''Product'', many1 is_space, many1 is_digit],
      seqs [Cls (ch nl), many is_space, liti ''Item'', many1 is_space, many1 is_digit]]"

definition split_into_product_sections :: "string \<Rightarrow> string list" where
  "split_into_product_sections text =
     (let sections = foldl (\<lambda>sections delimiter. concat (map (re_split delimiter) sections))
                           [text] delimiters
      in map strip (filter (\<lambda>s. length (strip s) > 50) sections))"

definition skip_patterns :: "rx list" where
  "skip_patterns =
     [seqs [liti ''page'', many1 is_space, many1 is_digit],
      liti ''catalog'',
      Seq (liti ''specification'') (opt1 (ci CHR ''s'')),
      liti ''description'',
      Seq (liti ''feature'') (opt1 (ci CHR ''s'')),
      Seq (liti ''benefit'') (opt1 (ci CHR ''s'')),
      liti ''contact'', liti ''phone'', liti ''email'', liti ''address'',
      liti ''www.'', liti ''http'', liti ''.com'']"

definition product_indicators :: "rx list" where
  "product_indicators =
     map liti [''bottle'', ''jar'', ''container'', ''cap'', ''closure'', ''tube'',
               ''pump'', ''dispenser'', ''packaging'', ''ml'', ''oz'', ''gram'']"

definition is_likely_product_name :: "string \<Rightarrow> bool" where
  "is_likely_product_name line =
     (if length line < 3 \<or> length line > 100 then False
      else if list_ex (\<lambda>p. re_found p line) skip_patterns then False
      else list_ex (\<lambda>p. re_found p line) product_indicators)"

text \<open>
  The six patterns of \<open>extract_specs_from_text\<close>, all case-insensitive:
  \<open>material:?\s*([^,\n]+)\<close>, \<open>weight:?\s*(\d+(?:\.\d+)?)\s*(g|kg|gram|kilogram)\<close>,
  \<open>(?:capacity|volume|size):?\s*(\d+(?:\.\d+)?)\s*(ml|l|liter|litre|oz)\<close>,
  \<open>colou?r:?\s*([^,\n]+)\<close>, \<open>(?:sku|code|ref|item):?\s*([A-Z0-9-]+)\<close> and
  \<open>recycled?\s*content:?\s*(\d+)\s*%\<close>.
\<close>

definition not_comma_nl :: "char \<Rightarrow> bool" where
  "not_comma_nl c = (c \<noteq> CHR '','' \<and> c \<noteq> nl)"

definition material_rx :: rx where
  "material_rx = seqs [liti ''material'', opt1 (ch CHR '':''), many is_space, Grp 1 (many1 not_comma_nl)]"

definition text_weight_rx :: rx where
  "text_weight_rx =
     seqs [liti ''weight'', opt1 (ch CHR '':''), many is_space, Grp 1 number_rx, many is_space,
           Grp 2 (alts (map liti weight_units))]"

definition text_capacity_rx :: rx where
  "text_capacity_rx =
     seqs [alts (map liti [''capacity'', ''volume'', ''size'']), opt1 (ch CHR '':''), many is_space,
           Grp 1 number_rx, many is_space, Grp 2 (alts (map liti capacity_units))]"

definition color_rx :: rx where
  "color_rx = seqs [liti ''colo'', opt1 (ci CHR ''u''), liti ''r'', opt1 (ch CHR '':''), many is_space,
                    Grp 1 (many1 not_comma_nl)]"

definition sku_rx :: rx where
  "sku_rx = seqs [alts (map liti [''sku'', ''code'', ''ref'', ''item'']), opt1 (ch CHR '':''), many is_space,
                  Grp 1 (many1 (\<lambda>c. is_alpha c \<or> is_digit c \<or> c = CHR ''-''))]"

definition recycled_rx :: rx where
  "recycled_rx = seqs [liti ''recycle'', opt1 (ci CHR ''d''), many is_space, liti ''content'',
                       opt1 (ch CHR '':''), many is_space, Grp 1 (many1 is_digit), many is_space,
                       Cls (ch CHR ''%'')]"

text \<open>
  \<open>extract_specs_from_text\<close> runs six searches in turn on the same text; each step
  below is one of them, writing into \<open>specs\<close> when it matches.
\<close>

definition material_step :: "string \<Rightarrow> dict \<Rightarrow> exn + dict" where
  "material_step text specs =
     (case re_search material_rx text of
        None \<Rightarrow> Inr specs
      | Some m \<Rightarrow> bind_exn (strip_group m 1) (\<lambda>v. Inr (dict_set specs ''materialType'' (PStr v))))"

definition weight_step :: "string \<Rightarrow> dict \<Rightarrow> exn + dict" where
  "weight_step text specs =
     (case re_search text_weight_rx text of
        None \<Rightarrow> Inr specs
      | Some m \<Rightarrow>
          bind_exn (float_group m 1) (\<lambda>w.
          bind_exn (lower_group m 2) (\<lambda>u.
            Inr (dict_set (dict_set specs ''weight'' (PFloat w)) ''weightUnit'' (PStr u)))))"

definition capacity_step :: "string \<Rightarrow> dict \<Rightarrow> exn + dict" where
  "capacity_step text specs =
     (case re_search text_capacity_rx text of
        None \<Rightarrow> Inr specs
      | Some m \<Rightarrow>
          bind_exn (float_group m 1) (\<lambda>w.
          bind_exn (lower_group m 2) (\<lambda>u.
            Inr (dict_set (dict_set specs ''capacity'' (PFloat w)) ''capacityUnit'' (PStr u)))))"

definition color_step :: "string \<Rightarrow> dict \<Rightarrow> exn + dict" where
  "color_step text specs =
     (case re_search color_rx text of
        None \<Rightarrow> Inr specs
      | Some m \<Rightarrow> bind_exn (strip_group m 1) (\<lambda>v. Inr (dict_set specs ''color'' (PStr v))))"

definition sku_step :: "string \<Rightarrow> dict \<Rightarrow> exn + dict" where
  "sku_step text specs =
     (case re_search sku_rx text of
        None \<Rightarrow> Inr specs
      | Some m \<Rightarrow> bind_exn (strip_group m 1) (\<lambda>v. Inr (dict_set specs ''sku'' (PStr v))))"

definition recycled_step :: "string \<Rightarrow> dict \<Rightarrow> exn + dict" where
  "recycled_step text specs =
     (case re_search recycled_rx text of
        None \<Rightarrow> Inr specs
      | Some m \<Rightarrow> bind_exn (int_group m 1) (\<lambda>n. Inr (dict_set specs ''recycledContent'' (PInt n))))"

definition extract_specs_from_text :: "string \<Rightarrow> exn + dict" where
  "extract_specs_from_text text =
     bind_exn (material_step text []) (\<lambda>specs.
     bind_exn (weight_step text specs) (\<lambda>specs.
     bind_exn (capacity_step text specs) (\<lambda>specs.
     bind_exn (color_step text specs) (\<lambda>specs.
     bind_exn (sku_step text specs) (\<lambda>specs.
       recycled_step text specs)))))"

text \<open>The paragraph separator \<open>\n\s*\n\<close>.\<close>

definition paragraph_rx :: rx where
  "paragraph_rx = seqs [Cls (ch nl), many is_space, Cls (ch nl)]"

definition spec_indicators :: "string list" where
  "spec_indicators = [''weight:'', ''material:'', ''capacity:'', ''size:'', ''sku:'']"

fun first_description :: "string list \<Rightarrow> string option" where
  "first_description [] = None"
| "first_description (p # ps) =
     (let paragraph = strip p in
      if length paragraph < 50 then first_description ps
      else if length (filter (\<lambda>indicator. contains (lower paragraph) indicator) spec_indicators) > 2
        then first_description ps
      else Some paragraph)"

definition extract_description_from_text :: "string \<Rightarrow> string option" where
  "extract_description_from_text text = first_description (re_split paragraph_rx text)"

text \<open>\<open>[line.strip() for line in text.split('\n') if line.strip()]\<close>.\<close>

definition stripped_lines :: "string \<Rightarrow> string list" where
  "stripped_lines text = map strip (filter (\<lambda>line. strip line \<noteq> []) (split_on nl text))"

definition extract_product_from_text_section :: "string \<Rightarrow> exn + dict option" where
  "extract_product_from_text_section text =
     (let lines = stripped_lines text;
          product = (case find is_likely_product_name (take 3 lines) of
                       None \<Rightarrow> []
                     | Some line \<Rightarrow> dict_set [] ''productName'' (PStr line))
      in bind_exn (extract_specs_from_text text) (\<lambda>specs.
           let product = dict_update product specs;
               product = (case extract_description_from_text text of
                            None \<Rightarrow> product
                          | Some description \<Rightarrow>
                              if description \<noteq> []
                              then dict_set product ''description'' (PStr description)
                              else product)
           in Inr (if truthy (dict_get product ''productName'') then Some product else None)))"

text \<open>
  \<open>extract_products_from_text\<close>: a section's product is appended unless the lower-cased
  name is that of a product already in the list.
\<close>

definition existing_names :: "dict list \<Rightarrow> exn + string list" where
  "existing_names products =
     fold_exn (\<lambda>names p. bind_exn (py_lower (dict_get_default p ''productName'' (PStr [])))
                              (\<lambda>n. Inr (names @ [n])))
              [] products"

definition section_step :: "dict list \<Rightarrow> string \<Rightarrow> exn + dict list" where
  "section_step products section =
     bind_exn (extract_product_from_text_section section) (\<lambda>r.
       case r of
         None \<Rightarrow> Inr products
       | Some product \<Rightarrow>
           if product \<noteq> [] \<and> truthy (dict_get product ''productName'') then
             bind_exn (existing_names products) (\<lambda>names.
             bind_exn (py_lower (dict_get product ''productName'')) (\<lambda>n.
               Inr (if n \<notin> set names then products @ [product] else products)))
           else Inr products)"

definition extract_products_from_text :: "string \<Rightarrow> dict list \<Rightarrow> exn + dict list" where
  "extract_products_from_text text products =
     fold_exn section_step products (split_into_product_sections text)"

section \<open>Company profile builder (\<open>bulk_pdf_extractor.py\<close>)\<close>

text \<open>
  \<open>extract_company_name\<close>: the first loop runs over the first ten stripped lines, the
  fallback loop over the first five.
\<close>

definition company_indicators :: "string list" where
  "company_indicators = [''ltd'', ''inc'', ''corp'', ''company'', ''limited'']"

fun name_loop :: "string list \<Rightarrow> string option" where
  "name_loop [] = None"
| "name_loop (line # lines) =
     (if length line < 3 \<or> length line > 80 then name_loop lines
      else if contains_any (lower line) company_indicators then Some line
      else if isupper line \<and> length line > 5 then Some (title line)
      else name_loop lines)"

fun fallback_loop :: "string list \<Rightarrow> string option" where
  "fallback_loop [] = None"
| "fallback_loop (line # lines) =
     (if length line > 5 \<and> length line < 50 then Some line else fallback_loop lines)"

definition extract_company_name :: "string \<Rightarrow> string" where
  "extract_company_name text =
     (let lines = stripped_lines text in
      case name_loop (take 10 lines) of
        Some name \<Rightarrow> name
      | None \<Rightarrow>
          (case fallback_loop (take 5 lines) of
             Some name \<Rightarrow> name
           | None \<Rightarrow> ''Unknown Company''))"

text \<open>
  The address patterns (case-sensitive):
  \<open>[A-Za-z0-9\s,.-]+\b\d{5}(?:-\d{4})?\b\<close>,
  \<open>[A-Za-z0-9\s,.-]+\b[A-Z]{1,2}\d{1,2}[A-Z]?\s\d[A-Z]{2}\b\<close> and
  \<open>[A-Za-z0-9\s,.-]+\b\d{4,5}\s[A-Za-z]+\b\<close>.
\<close>

definition address_char :: "char \<Rightarrow> bool" where
  "address_char c = (is_alpha c \<or> is_digit c \<or> is_space c \<or> c \<in> set '',.-'')"

definition zip_rx :: rx where
  "zip_rx = seqs [many1 address_char, WordB, Rep is_digit 5 (Some 5),
                  Opt (Seq (Cls (ch CHR ''-'')) (Rep is_digit 4 (Some 4))), WordB]"

definition postcode_rx :: rx where
  "postcode_rx = seqs [many1 address_char, WordB, Rep is_upper 1 (Some 2), Rep is_digit 1 (Some 2),
                       Rep is_upper 0 (Some 1), Cls is_space, Cls is_digit, Rep is_upper 2 (Some 2),
                       WordB]"

definition other_postal_rx :: rx where
  "other_postal_rx = seqs [many1 address_char, WordB, Rep is_digit 4 (Some 5), Cls is_space,
                           many1 is_alpha, WordB]"

fun first_address :: "rx list \<Rightarrow> string \<Rightarrow> pyval" where
  "first_address [] text = PNone"
| "first_address (pattern # patterns) text =
     (case re_search pattern text of
        None \<Rightarrow> first_address patterns text
      | Some m \<Rightarrow>
          (let address = strip (group0 m) in
           if length address > 20 then PStr address else first_address patterns text))"

definition extract_address :: "string \<Rightarrow> pyval" where
  "extract_address text = first_address [zip_rx, postcode_rx, other_postal_rx] text"

text \<open>
  The e-mail pattern \<open>\b[A-Za-z0-9._%+-]+@[A-Za-z0-9.-]+\.[A-Z|a-z]{2,}\b\<close>
  (the bar inside the last class is a character of it).
\<close>

definition email_rx :: rx where
  "email_rx = seqs [WordB,
                    many1 (\<lambda>c. is_alpha c \<or> is_digit c \<or> c \<in> set ''._%+-''),
                    Cls (ch CHR ''@''),
                    many1 (\<lambda>c. is_alpha c \<or> is_digit c \<or> c \<in> set ''.-''),
                    Cls (ch CHR ''.''),
                    Rep (\<lambda>c. is_alpha c \<or> c = CHR ''|'') 2 None,
                    WordB]"

definition extract_email :: "string \<Rightarrow> pyval" where
  "extract_email text = (case re_search email_rx text of Some m \<Rightarrow> PStr (group0 m) | None \<Rightarrow> PNone)"

text \<open>
  The phone patterns \<open>\+?\d{1,3}[-.\s]?\(?\d{3}\)?[-.\s]?\d{3}[-.\s]?\d{4}\<close> and
  \<open>\b\d{3}[-.\s]?\d{3}[-.\s]?\d{4}\b\<close>.
\<close>

definition phone_sep :: "char \<Rightarrow> bool" where
  "phone_sep c = (c \<in> set ''-.'' \<or> is_space c)"

definition phone_tail :: "rx list" where
  "phone_tail = [Rep is_digit 3 (Some 3), opt1 phone_sep, Rep is_digit 3 (Some 3), opt1 phone_sep,
                 Rep is_digit 4 (Some 4)]"

definition phone_rx1 :: rx where
  "phone_rx1 = seqs ([opt1 (ch CHR ''+''), Rep is_digit 1 (Some 3), opt1 phone_sep,
                      opt1 (ch CHR ''(''), Rep is_digit 3 (Some 3), opt1 (ch CHR '')''), opt1 phone_sep,
                      Rep is_digit 3 (Some 3), opt1 phone_sep, Rep is_digit 4 (Some 4)])"

definition phone_rx2 :: rx where
  "phone_rx2 = seqs ([WordB] @ phone_tail @ [WordB])"

fun first_group0 :: "rx list \<Rightarrow> string \<Rightarrow> string option" where
  "first_group0 [] text = None"
| "first_group0 (pattern # patterns) text =
     (case re_search pattern text of
        None \<Rightarrow> first_group0 patterns text
      | Some m \<Rightarrow> Some (group0 m))"

definition extract_phone :: "string \<Rightarrow> pyval" where
  "extract_phone text =
     (case first_group0 [phone_rx1, phone_rx2] text of Some p \<Rightarrow> PStr p | None \<Rightarrow> PNone)"

text \<open>
  The website patterns, case-insensitive: \<open>https?://[^\s]+\<close>, \<open>www\.[^\s]+\<close> and
  \<open>\b[a-zA-Z0-9-]+\.(?:com|co\.uk|net|org|biz)\b\<close>.
\<close>

definition website_patterns :: "rx list" where
  "website_patterns =
     [seqs [liti ''http'', opt1 (ci CHR ''s''), liti ''://'', many1 (\<lambda>c. \<not> is_space c)],
      seqs [liti ''www.'', many1 (\<lambda>c. \<not> is_space c)],
      seqs [WordB, many1 (\<lambda>c. is_alpha c \<or> is_digit c \<or> c = CHR ''-''), Cls (ch CHR ''.''),
            alts (map liti [''com'', ''co.uk'', ''net'', ''org'', ''biz'']), WordB]]"

definition extract_website :: "string \<Rightarrow> pyval" where
  "extract_website text =
     (case first_group0 website_patterns text of
        Some url \<Rightarrow> PStr (if \<not> startswith url ''http'' then ''https://'' @ url else url)
      | None \<Rightarrow> PNone)"

text \<open>
  The patterns of \<open>extract_company_description\<close>, case-insensitive:
  \<open>about\s+us[:\s]*([^.]*\.)\<close>, \<open>company\s+overview[:\s]*([^.]*\.)\<close> and
  \<open>who\s+we\s+are[:\s]*([^.]*\.)\<close>; the fallback refuses a paragraph matching
  \<open>phone|email|address|weight|material\<close>.
\<close>

definition sentence_rx :: "rx list" where
  "sentence_rx = [many (\<lambda>c. c = CHR '':'' \<or> is_space c),
                  Grp 1 (Seq (many (\<lambda>c. c \<noteq> CHR ''.'')) (Cls (ch CHR ''.'')))]"

definition about_patterns :: "rx list" where
  "about_patterns =
     [seqs ([liti ''about'', many1 is_space, liti ''us''] @ sentence_rx),
      seqs ([liti ''company'', many1 is_space, liti ''overview''] @ sentence_rx),
      seqs ([liti ''who'', many1 is_space, liti ''we'', many1 is_space, liti ''are''] @ sentence_rx)]"

fun first_about :: "rx list \<Rightarrow> string \<Rightarrow> exn + string option" where
  "first_about [] text = Inr None"
| "first_about (pattern # patterns) text =
     (case re_search pattern text of
        None \<Rightarrow> first_about patterns text
      | Some m \<Rightarrow>
          bind_exn (strip_group m 1) (\<lambda>desc.
            if length desc > 50 then Inr (Some desc) else first_about patterns text))"

definition contact_or_spec_rx :: rx where
  "contact_or_spec_rx = alts (map liti [''phone'', ''email'', ''address'', ''weight'', ''material''])"

fun first_paragraph :: "string list \<Rightarrow> string option" where
  "first_paragraph [] = None"
| "first_paragraph (p # ps) =
     (let paragraph = strip p in
      if length paragraph > 100 \<and> length paragraph < 500 \<and> \<not> re_found contact_or_spec_rx paragraph
      then Some paragraph
      else first_paragraph ps)"

definition extract_company_description :: "string \<Rightarrow> exn + pyval" where
  "extract_company_description text =
     bind_exn (first_about about_patterns text) (\<lambda>r.
       case r of
         Some desc \<Rightarrow> Inr (PStr desc)
       | None \<Rightarrow>
           (case first_paragraph (re_split paragraph_rx text) of
              Some paragraph \<Rightarrow> Inr (PStr paragraph)
            | None \<Rightarrow> Inr PNone))"

section \<open>Orchestrator (\<open>bulk_pdf_extractor.py\<close>)\<close>

text \<open>
  A page of \<open>pdfplumber\<close> is the result of its two calls: \<open>extract_text()\<close> gives a
  string or \<open>None\<close>, \<open>extract_tables()\<close> a list of tables; either may raise.
  \<open>pdfplumber.open\<close> gives the pages or raises.
\<close>

record page =
  extract_text :: "exn + string option"
  extract_tables :: "exn + table list"

text \<open>\<open>page.extract_text() or ""\<close>.\<close>

definition text_or_empty :: "page \<Rightarrow> exn + string" where
  "text_or_empty p = bind_exn (extract_text p) (\<lambda>t. Inr (case t of None \<Rightarrow> [] | Some s \<Rightarrow> s))"

text \<open>
  The pages \<open>extract_company_profile\<close> reads: the first three, and the last two of a
  document of more than three pages unless already taken (pages are compared by
  identity, here by index).
\<close>

definition pages_to_check :: "page list \<Rightarrow> page list" where
  "pages_to_check pages =
     (let n = length pages;
          first = [0..<min 3 n];
          last = (if n > 3 then filter (\<lambda>i. i \<notin> set first) [n - 2..<n] else [])
      in map (\<lambda>i. pages ! i) (first @ last))"

definition extract_company_profile :: "page list \<Rightarrow> exn + dict" where
  "extract_company_profile pages =
     bind_exn (fold_exn (\<lambda>company_text p. bind_exn (text_or_empty p) (\<lambda>t. Inr (company_text @ t)))
                        [] (pages_to_check pages)) (\<lambda>company_text.
     bind_exn (extract_company_description company_text) (\<lambda>description.
       Inr [(''companyName'', PStr (extract_company_name company_text)),
            (''address'', extract_address company_text),
            (''email'', extract_email company_text),
            (''phone'', extract_phone company_text),
            (''website'', extract_website company_text),
            (''supplierType'', PStr ''Packaging''),
            (''description'', description)]))"

text \<open>
  \<open>extract_product_listings\<close>: the loop over the pages collects the text and sends each
  table to the table interpreter; then the text is segmented; then duplicates are removed.
\<close>

definition page_step :: "string \<times> dict list \<Rightarrow> page \<Rightarrow> exn + string \<times> dict list" where
  "page_step acc p =
     (case acc of (all_text, products) \<Rightarrow>
        bind_exn (text_or_empty p) (\<lambda>page_text.
        bind_exn (extract_tables p) (\<lambda>tables.
        bind_exn (fold_exn (\<lambda>ps t. process_product_table t ps) products tables) (\<lambda>products'.
          Inr (all_text @ page_text @ [nl], products')))))"

fun remove_duplicates :: "string list \<Rightarrow> dict list \<Rightarrow> dict list \<Rightarrow> exn + dict list" where
  "remove_duplicates seen_names unique_products [] = Inr unique_products"
| "remove_duplicates seen_names unique_products (product # products) =
     bind_exn (py_lower (dict_get_default product ''productName'' (PStr []))) (\<lambda>name.
       if name \<noteq> [] \<and> name \<notin> set seen_names
       then remove_duplicates (seen_names @ [name]) (unique_products @ [product]) products
       else remove_duplicates seen_names unique_products products)"

definition extract_product_listings :: "page list \<Rightarrow> dict list \<Rightarrow> exn + dict list" where
  "extract_product_listings pages products_data =
     bind_exn (fold_exn page_step ([], products_data) pages) (\<lambda>(all_text, products).
     bind_exn (extract_products_from_text all_text products) (\<lambda>products'.
       remove_duplicates [] [] products'))"

text \<open>
  \<open>extract_all_data\<close> on a fresh extractor (\<open>products_data = []\<close>): the envelope.
\<close>

definition success_envelope :: "dict \<Rightarrow> dict list \<Rightarrow> dict" where
  "success_envelope company_data products_data =
     [(''success'', PBool True),
      (''supplierData'', PDict company_data),
      (''productsData'', PList (map PDict products_data)),
      (''totalProducts'', PInt (int (length products_data)))]"

definition extract_all_data :: "exn + page list \<Rightarrow> dict" where
  "extract_all_data opened =
     (case bind_exn opened (\<lambda>pages.
           bind_exn (extract_company_profile pages) (\<lambda>company_data.
           bind_exn (extract_product_listings pages []) (\<lambda>products_data.
             Inr (success_envelope company_data products_data)))) of
        Inr envelope \<Rightarrow> envelope
      | Inl e \<Rightarrow> [(''success'', PBool False), (''error'', PStr (''PDF extraction failed: '' @ e))])"

section \<open>The simple web crawler (\<open>simple_web_crawler.py\<close>)\<close>

text \<open>
  Functions of \<open>simple_web_crawler.py\<close> carry the prefix \<open>web_\<close> where the name is
  taken by the function of the same name in \<open>bulk_pdf_extractor.py\<close>, functions of
  \<open>bulk_web_crawler.py\<close> the prefix \<open>spider_\<close>.

  A parsed document (\<open>BeautifulSoup\<close>) is the answers to the queries the crawlers make:
  the text of the document, the elements a CSS selector selects (the call raises on a
  selector the library refuses), the elements with a tag name, the rows and cells of
  each table, the terms and values of each definition list, and (for
  \<open>bulk_web_crawler.py\<close>) each text node with the text of its parent.
  An element is its attributes, its text (\<open>get_text()\<close>) and its stripped text
  (\<open>get_text(strip=True)\<close>).
\<close>

record element =
  attrs :: "(string \<times> string) list"
  get_text :: string
  get_text_strip :: string

record soup =
  soup_text :: string
  select :: "string \<Rightarrow> exn + element list"
  find_all :: "string \<Rightarrow> element list"
  tables :: "element list list list"
  dls :: "(element list \<times> element list) list"
  strings :: "(string \<times> element option) list"

text \<open>
  What the crawler calls outside itself: \<open>http_get\<close> is \<open>session.get(url, timeout=30)\<close>,
  \<open>raise_for_status()\<close> and the parse of the body; \<open>urljoin\<close> and \<open>netloc\<close>
  (\<open>urlparse(url).netloc\<close>) are those of \<open>urllib.parse\<close>; \<open>list_set\<close> is
  \<open>list(set(xs))\<close>, whose order Python leaves open.
\<close>

record web =
  http_get :: "string \<Rightarrow> exn + soup"
  urljoin :: "string \<Rightarrow> string \<Rightarrow> string"
  netloc :: "string \<Rightarrow> exn + string"
  list_set :: "string list \<Rightarrow> string list"

text \<open>\<open>el.get(k)\<close> on an element, and \<open>soup.select_one\<close>.\<close>

definition attr :: "element \<Rightarrow> string \<Rightarrow> string option" where
  "attr el k = map_of (attrs el) k"

definition select_one :: "soup \<Rightarrow> string \<Rightarrow> exn + element option" where
  "select_one s selector =
     bind_exn (select s selector) (\<lambda>els. Inr (case els of [] \<Rightarrow> None | el # _ \<Rightarrow> Some el))"

text \<open>\<open>s.replace(old, new)\<close> for a non-empty \<open>old\<close>.\<close>

fun replace :: "string \<Rightarrow> string \<Rightarrow> string \<Rightarrow> string" where
  "replace [] old new = []"
| "replace (c # cs) old new =
     (if old \<noteq> [] \<and> startswith (c # cs) old
      then new @ replace (drop (length old) (c # cs)) old new
      else c # replace cs old new)"

subsection \<open>Field parsers\<close>

text \<open>
  \<open>parse_weight\<close>, \<open>parse_capacity\<close> and \<open>extract_percentage\<close> are the same in both
  crawlers: the patterns of the document variant, the result written into \<open>specs\<close>;
  the percentage is \<open>(\d+(?:\.\d+)?)\s*%\<close>, read as a float.
\<close>

definition web_parse_weight :: "string \<Rightarrow> dict \<Rightarrow> exn + dict" where
  "web_parse_weight v specs =
     (case re_search weight_rx v of
        Some m \<Rightarrow>
          bind_exn (float_group m 1) (\<lambda>w.
            Inr (dict_set (dict_set specs ''weight'' (PFloat w)) ''weight_unit'' (PStr (unit_or m 2 ''g''))))
      | None \<Rightarrow> Inr specs)"

definition web_parse_capacity :: "string \<Rightarrow> dict \<Rightarrow> exn + dict" where
  "web_parse_capacity v specs =
     (case re_search capacity_rx v of
        Some m \<Rightarrow>
          bind_exn (float_group m 1) (\<lambda>w.
            Inr (dict_set (dict_set specs ''capacity'' (PFloat w)) ''capacity_unit'' (PStr (unit_or m 2 ''ml''))))
      | None \<Rightarrow> Inr specs)"

definition web_percent_rx :: rx where
  "web_percent_rx = Seq (Grp 1 number_rx) (Seq (many is_space) (Cls (ch CHR ''%'')))"

definition web_extract_percentage :: "string \<Rightarrow> exn + pyval" where
  "web_extract_percentage t =
     (case re_search web_percent_rx t of
        Some m \<Rightarrow> bind_exn (float_group m 1) (\<lambda>w. Inr (PFloat w))
      | None \<Rightarrow> Inr PNone)"

definition web_parse_spec_value :: "string \<Rightarrow> string \<Rightarrow> dict \<Rightarrow> exn + dict" where
  "web_parse_spec_value k v specs =
     (if contains k ''material'' then Inr (dict_set specs ''material'' (PStr v))
      else if contains k ''weight'' then web_parse_weight v specs
      else if contains k ''capacity'' \<or> contains k ''volume'' then web_parse_capacity v specs
      else if contains k ''color'' \<or> contains k ''colour'' then Inr (dict_set specs ''color'' (PStr v))
      else if contains k ''sku'' \<or> contains k ''code'' then Inr (dict_set specs ''sku'' (PStr v))
      else if contains k ''recycle''
        then bind_exn (web_extract_percentage v) (\<lambda>p. Inr (dict_set specs ''recycled_content'' p))
      else Inr specs)"

text \<open>
  The free-text patterns \<open>(\d+(?:\.\d+)?)\s*(g|kg|gram|kilogram)\<close> and
  \<open>(\d+(?:\.\d+)?)\s*(ml|l|liter|litre|oz)\<close>: here the unit is required.
\<close>

definition unit_required_rx :: "string list \<Rightarrow> rx" where
  "unit_required_rx units = seqs [Grp 1 number_rx, many is_space, Grp 2 (alts (map liti units))]"

definition web_text_step :: "string list \<Rightarrow> string \<Rightarrow> string \<Rightarrow> string \<Rightarrow> dict \<Rightarrow> exn + dict" where
  "web_text_step units k ku text specs =
     (case re_search (unit_required_rx units) text of
        Some m \<Rightarrow>
          if map_of specs k = None then
            bind_exn (float_group m 1) (\<lambda>w.
            bind_exn (lower_group m 2) (\<lambda>u.
              Inr (dict_set (dict_set specs k (PFloat w)) ku (PStr u))))
          else Inr specs
      | None \<Rightarrow> Inr specs)"

definition web_extract_specs_from_text :: "string \<Rightarrow> dict \<Rightarrow> exn + dict" where
  "web_extract_specs_from_text text specs =
     bind_exn (web_text_step weight_units ''weight'' ''weight_unit'' text specs) (\<lambda>specs.
       web_text_step capacity_units ''capacity'' ''capacity_unit'' text specs)"

text \<open>
  \<open>extract_specifications\<close>: the rows of the tables with at least two cells, then the
  pairs of the definition lists, then the text.
\<close>

definition web_row_step :: "(string \<Rightarrow> string \<Rightarrow> dict \<Rightarrow> exn + dict) \<Rightarrow> dict \<Rightarrow> element list \<Rightarrow> exn + dict" where
  "web_row_step parse specs cells =
     (case cells of
        k # v # _ \<Rightarrow> parse (lower (get_text_strip k)) (get_text_strip v) specs
      | _ \<Rightarrow> Inr specs)"

definition web_dl_step :: "(string \<Rightarrow> string \<Rightarrow> dict \<Rightarrow> exn + dict) \<Rightarrow> dict \<Rightarrow> element list \<times> element list \<Rightarrow> exn + dict" where
  "web_dl_step parse specs dl =
     (case dl of (terms, vals) \<Rightarrow>
        fold_exn (\<lambda>sp (t, v). parse (lower (get_text_strip t)) (get_text_strip v) sp)
                 specs (zip terms vals))"

definition web_extract_specifications :: "soup \<Rightarrow> exn + dict" where
  "web_extract_specifications s =
     bind_exn (fold_exn (\<lambda>sp rows. fold_exn (web_row_step web_parse_spec_value) sp rows) [] (tables s))
     (\<lambda>specs.
     bind_exn (fold_exn (web_dl_step web_parse_spec_value) specs (dls s))
     (\<lambda>specs. web_extract_specs_from_text (soup_text s) specs))"

subsection \<open>Product pages\<close>

text \<open>
  \<open>extract_by_selectors\<close>: the stripped text of the first selector whose first element
  has a text of more than two characters; a selector that raises is skipped.
\<close>

fun web_extract_by_selectors :: "soup \<Rightarrow> string list \<Rightarrow> pyval" where
  "web_extract_by_selectors s [] = PNone"
| "web_extract_by_selectors s (selector # selectors) =
     (case select_one s selector of
        Inl e \<Rightarrow> web_extract_by_selectors s selectors
      | Inr None \<Rightarrow> web_extract_by_selectors s selectors
      | Inr (Some el) \<Rightarrow>
          (let text = get_text_strip el in
           if text \<noteq> [] \<and> length text > 2 then PStr text
           else web_extract_by_selectors s selectors))"

definition is_valid_image_url :: "string \<Rightarrow> bool" where
  "is_valid_image_url url =
     list_ex (\<lambda>ext. endswith (lower url) ext) [''.jpg'', ''.jpeg'', ''.png'', ''.webp'', ''.gif'']"

text \<open>\<open>img.get('src') or img.get('data-src')\<close>.\<close>

definition img_src :: "element \<Rightarrow> string option" where
  "img_src img =
     (case attr img ''src'' of
        Some src \<Rightarrow> if src \<noteq> [] then Some src else attr img ''data-src''
      | None \<Rightarrow> attr img ''data-src'')"

definition images_of :: "web \<Rightarrow> string \<Rightarrow> element list \<Rightarrow> string list" where
  "images_of env base_url imgs =
     concat (map (\<lambda>img. case img_src img of
                          Some src \<Rightarrow>
                            if src \<noteq> [] \<and> is_valid_image_url (urljoin env base_url src)
                            then [urljoin env base_url src] else []
                        | None \<Rightarrow> []) imgs)"

definition web_extract_product_images :: "web \<Rightarrow> soup \<Rightarrow> string \<Rightarrow> string list" where
  "web_extract_product_images env s base_url =
     take 5 (list_set env
       (concat (map (\<lambda>selector. case select s selector of
                                   Inl e \<Rightarrow> []
                                 | Inr imgs \<Rightarrow> images_of env base_url imgs)
                    [''.product-image img'', ''.product-gallery img'', ''.product-photos img'',
                     ''[data-product-image]'', ''.product img'', ''.gallery img''])))"

text \<open>\<open>specs.get(k)\<close> and the two image entries of the product dict.\<close>

definition product_dict :: "pyval \<Rightarrow> pyval \<Rightarrow> dict \<Rightarrow> string list \<Rightarrow> string \<Rightarrow> dict" where
  "product_dict product_name description specs images url =
     [(''productName'', product_name),
      (''description'', description),
      (''materialType'', dict_get specs ''material''),
      (''weight'', dict_get specs ''weight''),
      (''weightUnit'', dict_get specs ''weight_unit''),
      (''capacity'', dict_get specs ''capacity''),
      (''capacityUnit'', dict_get specs ''capacity_unit''),
      (''color'', dict_get specs ''color''),
      (''dimensions'', dict_get specs ''dimensions''),
      (''recycledContent'', dict_get specs ''recycled_content''),
      (''sku'', dict_get specs ''sku''),
      (''productImage'', (case images of [] \<Rightarrow> PNone | i # _ \<Rightarrow> PStr i)),
      (''additionalImages'', PList (if length images > 1 then map PStr (take 4 (drop 1 images)) else [])),
      (''sourceUrl'', PStr url)]"

definition web_extract_product_data :: "web \<Rightarrow> soup \<Rightarrow> string \<Rightarrow> exn + dict option" where
  "web_extract_product_data env s url =
     (let product_name = web_extract_by_selectors s
            [''h1'', ''.product-title'', ''.product-name'', ''[data-product-name]'', ''.title'']
      in if \<not> truthy product_name then Inr None
         else
           (let description = web_extract_by_selectors s
                  [''.product-description'', ''.description'', ''.product-details p'', ''.content p'']
            in bind_exn (web_extract_specifications s) (\<lambda>specs.
                 Inr (Some (product_dict product_name description specs
                              (web_extract_product_images env s url) url)))))"

subsection \<open>Company profile\<close>

text \<open>
  \<open>extract_company_name\<close>: the \<open>alt\<close> text of the first image whose \<open>alt\<close> contains
  \<open>logo\<close> (in any case), else the title, else the domain.
\<close>

definition find_logo :: "soup \<Rightarrow> element option" where
  "find_logo s =
     find (\<lambda>img. case attr img ''alt'' of Some a \<Rightarrow> re_found (liti ''logo'') a | None \<Rightarrow> False)
          (find_all s ''img'')"

definition logo_name :: "soup \<Rightarrow> string option" where
  "logo_name s =
     (case find_logo s of
        None \<Rightarrow> None
      | Some logo \<Rightarrow>
          (case attr logo ''alt'' of
             None \<Rightarrow> None
           | Some a \<Rightarrow>
               if a \<noteq> [] then Some (strip (replace (replace a ''logo'' []) ''Logo'' [])) else None))"

definition domain_name :: "web \<Rightarrow> string \<Rightarrow> exn + string" where
  "domain_name env url =
     bind_exn (netloc env url) (\<lambda>domain.
       Inr (title (replace (replace (replace domain ''www.'' []) ''.com'' []) ''.co.uk'' [])))"

definition web_extract_company_name :: "web \<Rightarrow> soup \<Rightarrow> string \<Rightarrow> exn + string" where
  "web_extract_company_name env s url =
     (case (case logo_name s of Some name \<Rightarrow> if name \<noteq> [] then Some name else None | None \<Rightarrow> None) of
        Some name \<Rightarrow> Inr name
      | None \<Rightarrow>
          (case (case find_all s ''title'' of
                   [] \<Rightarrow> None
                 | t # _ \<Rightarrow>
                     (let title_text = foldl (\<lambda>tt suffix. replace tt suffix [])
                                          (strip (get_text t))
                                          ['' - Home'', '' | Home'', '' - Official Site'', '' | Official Site'']
                      in if title_text \<noteq> [] then Some title_text else None)) of
             Some title_text \<Rightarrow> Inr title_text
           | None \<Rightarrow> domain_name env url))"

definition web_extract_email :: "soup \<Rightarrow> pyval" where
  "web_extract_email s = extract_email (soup_text s)"

definition web_extract_address :: "soup \<Rightarrow> pyval" where
  "web_extract_address s = first_address [zip_rx, postcode_rx] (soup_text s)"

text \<open>The phone pattern \<open>(\+?\d{1,3}[-.\s]?)?\(?\d{3}\)?[-.\s]?\d{3}[-.\s]?\d{4}\<close>.\<close>

definition web_phone_rx :: rx where
  "web_phone_rx =
     seqs ([Opt (Grp 1 (seqs [opt1 (ch CHR ''+''), Rep is_digit 1 (Some 3), opt1 phone_sep])),
            opt1 (ch CHR ''(''), Rep is_digit 3 (Some 3), opt1 (ch CHR '')''), opt1 phone_sep,
            Rep is_digit 3 (Some 3), opt1 phone_sep, Rep is_digit 4 (Some 4)])"

definition web_extract_phone :: "soup \<Rightarrow> pyval" where
  "web_extract_phone s =
     (case re_search web_phone_rx (soup_text s) of Some m \<Rightarrow> PStr (group0 m) | None \<Rightarrow> PNone)"

text \<open>
  \<open>extract_description\<close>: the content of the description meta tag, else the first
  about-section of more than 50 characters, else the first paragraph of more than 100.
\<close>

definition meta_description :: "soup \<Rightarrow> element option" where
  "meta_description s = find (\<lambda>m. attr m ''name'' = Some ''description'') (find_all s ''meta'')"

fun about_section :: "soup \<Rightarrow> string list \<Rightarrow> exn + pyval" where
  "about_section s [] = Inr PNone"
| "about_section s (selector # selectors) =
     bind_exn (select_one s selector) (\<lambda>r.
       case r of
         None \<Rightarrow> about_section s selectors
       | Some el \<Rightarrow>
           if length (get_text_strip el) > 50 then Inr (PStr (get_text_strip el))
           else about_section s selectors)"

definition first_long_paragraph :: "soup \<Rightarrow> pyval" where
  "first_long_paragraph s =
     (case find (\<lambda>p. length (get_text_strip p) > 100) (find_all s ''p'') of
        Some p \<Rightarrow> PStr (get_text_strip p)
      | None \<Rightarrow> PNone)"

definition web_extract_description :: "soup \<Rightarrow> exn + pyval" where
  "web_extract_description s =
     (case (case meta_description s of
              None \<Rightarrow> None
            | Some m \<Rightarrow> (case attr m ''content'' of
                           Some c \<Rightarrow> if c \<noteq> [] then Some (strip c) else None
                         | None \<Rightarrow> None)) of
        Some d \<Rightarrow> Inr (PStr d)
      | None \<Rightarrow>
          bind_exn (about_section s [''.about-text'', ''.company-description'', ''.intro-text'', ''.hero-text''])
            (\<lambda>r. Inr (if r \<noteq> PNone then r else first_long_paragraph s)))"

subsection \<open>Crawl frontier and orchestrator\<close>

text \<open>
  The state of a \<open>SimpleWebCrawler\<close>. \<open>requests\<close> is not a field of the class: it records,
  in order, the URL of every \<open>session.get\<close> the crawler issues. \<open>stderr\<close> holds the
  messages of the per-page handlers.
\<close>

record crawler =
  start_url :: string
  base_domain :: string
  company_data :: dict
  products_data :: "dict list"
  visited_urls :: "string set"
  requests :: "string list"
  stderr :: "string list"

definition new_crawler :: "web \<Rightarrow> string \<Rightarrow> exn + crawler" where
  "new_crawler env url =
     bind_exn (netloc env url) (\<lambda>domain.
       Inr \<lparr>start_url = url, base_domain = domain, company_data = [], products_data = [],
            visited_urls = {}, requests = [], stderr = []\<rparr>)"

definition is_same_domain :: "web \<Rightarrow> crawler \<Rightarrow> string \<Rightarrow> bool" where
  "is_same_domain env c url =
     (case netloc env url of
        Inl e \<Rightarrow> False
      | Inr domain \<Rightarrow> domain = base_domain c \<or> endswith domain (''.'' @ base_domain c))"

definition is_product_link :: "string \<Rightarrow> bool" where
  "is_product_link href =
     (if href = [] then False
      else if contains_any (lower href)
                [''mailto:'', ''tel:'', ''#'', ''javascript:'', ''.pdf'', ''.jpg'', ''.png'', ''.css'', ''.js'']
        then False
      else contains_any (lower href)
                [''product'', ''bottle'', ''container'', ''jar'', ''cap'', ''closure'', ''packaging''])"

text \<open>
  The links one selector contributes: none when \<open>select\<close> raises, else the joined
  URL of every link that has an \<open>href\<close>, passes \<open>keep\<close> and stays on the domain.
\<close>

definition links_of :: "web \<Rightarrow> crawler \<Rightarrow> soup \<Rightarrow> (string \<Rightarrow> bool) \<Rightarrow> string \<Rightarrow> string list" where
  "links_of env c s keep selector =
     (case select s selector of
        Inl e \<Rightarrow> []
      | Inr links \<Rightarrow>
          concat (map (\<lambda>link. case attr link ''href'' of
                                None \<Rightarrow> []
                              | Some href \<Rightarrow>
                                  if href \<noteq> [] \<and> keep href
                                     \<and> is_same_domain env c (urljoin env (start_url c) href)
                                  then [urljoin env (start_url c) href] else [])
                      links))"

definition find_company_info_links :: "web \<Rightarrow> crawler \<Rightarrow> soup \<Rightarrow> string list" where
  "find_company_info_links env c s =
     list_set env
       (concat (map (links_of env c s (\<lambda>href. True))
                    [''a[href*=\"about\"]'', ''a[href*=\"contact\"]'', ''a[href*=\"company\"]'',
                     ''a:contains(\"About\")'', ''a:contains(\"Contact\")'', ''a:contains(\"Company\")'']))"

definition find_product_links :: "web \<Rightarrow> crawler \<Rightarrow> soup \<Rightarrow> string list" where
  "find_product_links env c s =
     list_set env
       (concat (map (links_of env c s is_product_link)
                    [''a[href*=\"product\"]'', ''a[href*=\"bottle\"]'', ''a[href*=\"container\"]'',
                     ''a[href*=\"packaging\"]'', ''.product-item a'', ''.product-card a'',
                     ''.product-grid a'', ''.catalog-item a'', ''.product a'']))"

text \<open>
  \<open>extract_company_profile\<close>: \<open>company_data.update\<close> with the seven entries. The name
  and the description are computed before the dict is touched, so an exception leaves
  it as it was.
\<close>

definition web_extract_company_profile :: "web \<Rightarrow> crawler \<Rightarrow> soup \<Rightarrow> string \<Rightarrow> exn + crawler" where
  "web_extract_company_profile env c s url =
     bind_exn (web_extract_company_name env s url) (\<lambda>company_name.
     bind_exn (web_extract_description s) (\<lambda>description.
       Inr (c\<lparr>company_data := dict_update (company_data c)
               [(''companyName'', PStr company_name),
                (''website'', PStr url),
                (''email'', web_extract_email s),
                (''address'', web_extract_address s),
                (''phone'', web_extract_phone s),
                (''supplierType'', PStr ''Packaging''),
                (''description'', description)]\<rparr>)))"

text \<open>
  \<open>crawl_company_page\<close>. The three contact fields are filled when they are falsy; then
  the description is compared. Whatever raises inside the \<open>try\<close> is printed to
  \<open>stderr\<close>, and the updates made before it stay.
\<close>

definition fill_field :: "string \<Rightarrow> pyval \<Rightarrow> dict \<Rightarrow> dict" where
  "fill_field k v cd = (if \<not> truthy (dict_get cd k) then dict_set cd k v else cd)"

definition longer_description :: "pyval \<Rightarrow> dict \<Rightarrow> exn + dict" where
  "longer_description description cd =
     (if truthy description then
        bind_exn (py_len description) (\<lambda>n.
        bind_exn (py_len (dict_get_default cd ''description'' (PStr []))) (\<lambda>k.
          Inr (if n > k then dict_set cd ''description'' description else cd)))
      else Inr cd)"

definition page_error :: "string \<Rightarrow> string \<Rightarrow> exn \<Rightarrow> string" where
  "page_error kind url e = ''Error crawling '' @ kind @ '' page '' @ url @ '': '' @ e"

definition crawl_company_page :: "web \<Rightarrow> crawler \<Rightarrow> string \<Rightarrow> crawler" where
  "crawl_company_page env c url =
     (let c = c\<lparr>requests := requests c @ [url]\<rparr> in
      case http_get env url of
        Inl e \<Rightarrow> c\<lparr>stderr := stderr c @ [page_error ''company'' url e]\<rparr>
      | Inr s \<Rightarrow>
          (let cd = fill_field ''email'' (web_extract_email s) (company_data c);
               cd = fill_field ''address'' (web_extract_address s) cd;
               cd = fill_field ''phone'' (web_extract_phone s) cd;
               c = c\<lparr>company_data := cd\<rparr>
           in case bind_exn (web_extract_description s) (\<lambda>description. longer_description description cd) of
                Inl e \<Rightarrow> c\<lparr>stderr := stderr c @ [page_error ''company'' url e]\<rparr>
              | Inr cd' \<Rightarrow> c\<lparr>company_data := cd'\<rparr>))"

definition crawl_product_page :: "web \<Rightarrow> crawler \<Rightarrow> string \<Rightarrow> crawler" where
  "crawl_product_page env c url =
     (let c = c\<lparr>visited_urls := insert url (visited_urls c), requests := requests c @ [url]\<rparr> in
      case bind_exn (http_get env url) (\<lambda>s. web_extract_product_data env s url) of
        Inl e \<Rightarrow> c\<lparr>stderr := stderr c @ [page_error ''product'' url e]\<rparr>
      | Inr None \<Rightarrow> c
      | Inr (Some product_data) \<Rightarrow>
          if product_data \<noteq> [] \<and> truthy (dict_get product_data ''productName'')
          then c\<lparr>products_data := products_data c @ [product_data]\<rparr>
          else c)"

definition product_step :: "web \<Rightarrow> crawler \<Rightarrow> string \<Rightarrow> crawler" where
  "product_step env c link = (if link \<notin> visited_urls c then crawl_product_page env c link else c)"

text \<open>
  \<open>crawl_supplier_catalog\<close>: the crawler after the run, and the envelope it returns.
  Only the request for the main page and \<open>extract_company_profile\<close> can raise into the
  handler of this method; the page handlers catch everything below them.
\<close>

definition failed_envelope :: "string \<Rightarrow> exn \<Rightarrow> dict" where
  "failed_envelope prefix e = [(''success'', PBool False), (''error'', PStr (prefix @ e))]"

definition crawl_supplier_catalog :: "web \<Rightarrow> crawler \<Rightarrow> crawler \<times> dict" where
  "crawl_supplier_catalog env c0 =
     (let c = c0\<lparr>requests := requests c0 @ [start_url c0]\<rparr> in
      case http_get env (start_url c) of
        Inl e \<Rightarrow> (c, failed_envelope ''Crawling failed: '' e)
      | Inr main_soup \<Rightarrow>
          (case web_extract_company_profile env c main_soup (start_url c) of
             Inl e \<Rightarrow> (c, failed_envelope ''Crawling failed: '' e)
           | Inr c \<Rightarrow>
               (let company_links = find_company_info_links env c main_soup;
                    c = foldl (crawl_company_page env) c (take 3 company_links);
                    product_links = find_product_links env c main_soup;
                    c = foldl (product_step env) c (take 20 product_links)
                in (c, success_envelope (company_data c) (products_data c)))))"

section \<open>The Scrapy spider (\<open>bulk_web_crawler.py\<close>)\<close>

text \<open>
  A response of Scrapy is its URL, its parsed body, and the strings
  \<open>response.css(q).getall()\<close> gives. The spider's state is its three collections
  (\<open>base_domain\<close> is set by the constructor and read nowhere). Scrapy runs the
  callbacks; a callback that raises is logged by Scrapy and the crawl goes on, so a
  callback returns the state it reached and the exception, if any.
\<close>

record response =
  response_url :: string
  response_soup :: soup
  css :: "string \<Rightarrow> string list"

record spider =
  spider_company_data :: dict
  spider_products_data :: "dict list"
  visited_product_urls :: "string set"

datatype callback = ParseCompanyPage | ParseProductPage

type_synonym request = "string \<times> callback"

subsection \<open>Extraction\<close>

definition spider_extract_company_name :: "web \<Rightarrow> soup \<Rightarrow> string \<Rightarrow> exn + string" where
  "spider_extract_company_name env s url =
     (case (case find_logo s of
              None \<Rightarrow> None
            | Some logo \<Rightarrow>
                (case attr logo ''alt'' of
                   None \<Rightarrow> None
                 | Some a \<Rightarrow>
                     if a \<noteq> [] then Some (strip (replace (replace a ''logo'' []) ''Logo'' [])) else None)) of
        Some name \<Rightarrow> Inr name
      | None \<Rightarrow>
          (case find_all s ''title'' of
             t # _ \<Rightarrow>
               Inr (strip (foldl (\<lambda>tt suffix. replace tt suffix []) (get_text t)
                                 ['' - Home'', '' | Home'', '' - Official Site'']))
           | [] \<Rightarrow> domain_name env url))"

text \<open>
  \<open>extract_address\<close>: for each indicator, the text nodes that contain it (in any
  case); the stripped text of the first parent that holds a ZIP code or a UK postcode,
  \<open>\b\d{5}(?:-\d{4})?\b|\b[A-Z]{1,2}\d{1,2}[A-Z]?\s\d[A-Z]{2}\b\<close>.
\<close>

definition code_rx :: rx where
  "code_rx =
     Alt (seqs [WordB, Rep is_digit 5 (Some 5), Opt (Seq (Cls (ch CHR ''-'')) (Rep is_digit 4 (Some 4))), WordB])
         (seqs [WordB, Rep is_upper 1 (Some 2), Rep is_digit 1 (Some 2), Rep is_upper 0 (Some 1),
                Cls is_space, Cls is_digit, Rep is_upper 2 (Some 2), WordB])"

definition address_candidates :: "soup \<Rightarrow> string \<Rightarrow> string list" where
  "address_candidates s indicator =
     concat (map (\<lambda>(txt, parent).
                    if re_found (liti indicator) txt then
                      (case parent of None \<Rightarrow> [] | Some p \<Rightarrow> [get_text_strip p])
                    else [])
                 (strings s))"

definition spider_extract_address :: "soup \<Rightarrow> pyval" where
  "spider_extract_address s =
     (case find (\<lambda>t. re_found code_rx t)
             (concat (map (address_candidates s) [''address'', ''location'', ''contact''])) of
        Some t \<Rightarrow> PStr t
      | None \<Rightarrow> PNone)"

fun spider_description_loop :: "soup \<Rightarrow> string list \<Rightarrow> exn + pyval" where
  "spider_description_loop s [] = Inr PNone"
| "spider_description_loop s (selector # selectors) =
     bind_exn (select_one s selector) (\<lambda>r.
       if startswith selector ''meta'' then
         (case r of
            Some el \<Rightarrow> Inr (PStr (case attr el ''content'' of Some c \<Rightarrow> c | None \<Rightarrow> []))
          | None \<Rightarrow> spider_description_loop s selectors)
       else
         (case r of
            Some el \<Rightarrow>
              if length (get_text_strip el) > 50 then Inr (PStr (get_text_strip el))
              else spider_description_loop s selectors
          | None \<Rightarrow> spider_description_loop s selectors))"

definition spider_extract_description :: "soup \<Rightarrow> exn + pyval" where
  "spider_extract_description s =
     bind_exn (spider_description_loop s
                 [''.about-text'', ''.company-description'', ''.intro-text'',
                  ''meta[name=\"description\"]'', ''.hero-text''])
       (\<lambda>r. Inr (if r \<noteq> PNone then r else first_long_paragraph s))"

definition spider_extract_company_profile :: "web \<Rightarrow> spider \<Rightarrow> response \<Rightarrow> exn + spider" where
  "spider_extract_company_profile env sp r =
     (let s = response_soup r in
      bind_exn (spider_extract_company_name env s (response_url r)) (\<lambda>company_name.
      bind_exn (spider_extract_description s) (\<lambda>description.
        Inr (sp\<lparr>spider_company_data := dict_update (spider_company_data sp)
                [(''companyName'', PStr company_name),
                 (''website'', PStr (response_url r)),
                 (''email'', web_extract_email s),
                 (''address'', spider_extract_address s),
                 (''phone'', web_extract_phone s),
                 (''supplierType'', PStr ''Packaging''),
                 (''description'', description)]\<rparr>))))"

text \<open>\<open>extract_number\<close>: the pattern \<open>(\d+(?:\.\d+)?)\<close>.\<close>

definition extract_number :: "string \<Rightarrow> exn + pyval" where
  "extract_number t =
     (case re_search (Grp 1 number_rx) t of
        Some m \<Rightarrow> bind_exn (float_group m 1) (\<lambda>w. Inr (PFloat w))
      | None \<Rightarrow> Inr PNone)"

text \<open>\<open>specs['dimensions'][k] = v\<close>, after \<open>specs['dimensions'] = {}\<close> if the key was absent.\<close>

definition set_dimension :: "dict \<Rightarrow> string \<Rightarrow> pyval \<Rightarrow> exn + dict" where
  "set_dimension specs k v =
     (case dict_get_default specs ''dimensions'' (PDict []) of
        PDict d \<Rightarrow> Inr (dict_set specs ''dimensions'' (PDict (dict_set d k v)))
      | _ \<Rightarrow> Inl ''TypeError'')"

definition spider_parse_spec_value :: "string \<Rightarrow> string \<Rightarrow> dict \<Rightarrow> exn + dict" where
  "spider_parse_spec_value k v specs =
     (if contains k ''material'' then Inr (dict_set specs ''material'' (PStr v))
      else if contains k ''weight'' then web_parse_weight v specs
      else if contains k ''capacity'' \<or> contains k ''volume'' then web_parse_capacity v specs
      else if contains k ''color'' \<or> contains k ''colour'' then Inr (dict_set specs ''color'' (PStr v))
      else if contains k ''sku'' \<or> contains k ''code'' then Inr (dict_set specs ''sku'' (PStr v))
      else if contains k ''recycle''
        then bind_exn (web_extract_percentage v) (\<lambda>p. Inr (dict_set specs ''recycled_content'' p))
      else if contains_any k [''height'', ''width'', ''diameter'', ''dimension''] then
        (let specs = (if map_of specs ''dimensions'' = None then dict_set specs ''dimensions'' (PDict [])
                      else specs)
         in if contains k ''height'' then bind_exn (extract_number v) (set_dimension specs ''height'')
            else if contains k ''width'' then bind_exn (extract_number v) (set_dimension specs ''width'')
            else if contains k ''diameter'' then bind_exn (extract_number v) (set_dimension specs ''diameter'')
            else Inr specs)
      else Inr specs)"

definition spider_text_step :: "string list \<Rightarrow> string \<Rightarrow> string \<Rightarrow> string \<Rightarrow> dict \<Rightarrow> exn + dict" where
  "spider_text_step units k ku text specs =
     (case re_search (unit_required_rx units) text of
        Some m \<Rightarrow>
          bind_exn (float_group m 1) (\<lambda>w.
          bind_exn (lower_group m 2) (\<lambda>u.
            Inr (dict_set (dict_set specs k (PFloat w)) ku (PStr u))))
      | None \<Rightarrow> Inr specs)"

definition spider_extract_specs_from_text :: "string \<Rightarrow> dict \<Rightarrow> exn + dict" where
  "spider_extract_specs_from_text text specs =
     bind_exn (spider_text_step weight_units ''weight'' ''weight_unit'' text specs) (\<lambda>specs.
       spider_text_step capacity_units ''capacity'' ''capacity_unit'' text specs)"

definition spider_extract_specifications :: "soup \<Rightarrow> exn + dict" where
  "spider_extract_specifications s =
     bind_exn (fold_exn (\<lambda>sp rows. fold_exn (web_row_step spider_parse_spec_value) sp rows) [] (tables s))
     (\<lambda>specs.
     bind_exn (fold_exn (web_dl_step spider_parse_spec_value) specs (dls s))
     (\<lambda>specs. spider_extract_specs_from_text (soup_text s) specs))"

fun spider_extract_by_selectors :: "soup \<Rightarrow> string list \<Rightarrow> exn + pyval" where
  "spider_extract_by_selectors s [] = Inr PNone"
| "spider_extract_by_selectors s (selector # selectors) =
     bind_exn (select_one s selector) (\<lambda>r.
       case r of
         None \<Rightarrow> spider_extract_by_selectors s selectors
       | Some el \<Rightarrow>
           if get_text_strip el \<noteq> [] then Inr (PStr (get_text_strip el))
           else spider_extract_by_selectors s selectors)"

definition spider_extract_product_images :: "web \<Rightarrow> soup \<Rightarrow> string \<Rightarrow> exn + string list" where
  "spider_extract_product_images env s base_url =
     bind_exn (fold_exn (\<lambda>images selector.
                           bind_exn (select s selector) (\<lambda>imgs. Inr (images @ images_of env base_url imgs)))
                        []
                        [''.product-image img'', ''.product-gallery img'', ''.product-photos img'',
                         ''[data-product-image]''])
       (\<lambda>images. Inr (list_set env images))"

definition spider_extract_product_data :: "web \<Rightarrow> soup \<Rightarrow> string \<Rightarrow> exn + dict" where
  "spider_extract_product_data env s url =
     bind_exn (spider_extract_by_selectors s
                 [''h1'', ''.product-title'', ''.product-name'', ''[data-product-name]'']) (\<lambda>product_name.
     bind_exn (spider_extract_by_selectors s
                 [''.product-description'', ''.description'', ''.product-details p'']) (\<lambda>description.
     bind_exn (spider_extract_specifications s) (\<lambda>specs.
     bind_exn (spider_extract_product_images env s url) (\<lambda>images.
       Inr (product_dict product_name description specs images url)))))"

subsection \<open>Callbacks\<close>

definition spider_is_product_link :: "string \<Rightarrow> bool" where
  "spider_is_product_link href =
     (if href = [] then False
      else if contains_any (lower href)
                [''mailto:'', ''tel:'', ''#'', ''javascript:'', ''.pdf'', ''.jpg'', ''.png'']
        then False
      else contains_any (lower href)
                [''product'', ''bottle'', ''container'', ''jar'', ''cap'', ''closure''])"

definition spider_find_product_links :: "web \<Rightarrow> soup \<Rightarrow> exn + string list" where
  "spider_find_product_links env s =
     bind_exn (fold_exn (\<lambda>product_links selector.
                           bind_exn (select s selector) (\<lambda>links.
                             Inr (product_links @
                                  concat (map (\<lambda>link. case attr link ''href'' of
                                                        None \<Rightarrow> []
                                                      | Some href \<Rightarrow>
                                                          if href \<noteq> [] \<and> spider_is_product_link href
                                                          then [href] else [])
                                              links))))
                        []
                        [''a[href*=\"product\"]'', ''a[href*=\"bottle\"]'', ''a[href*=\"container\"]'',
                         ''a[href*=\"packaging\"]'', ''.product-item a'', ''.product-card a'',
                         ''.product-grid a'', ''.catalog-item a''])
       (\<lambda>product_links. Inr (list_set env product_links))"

text \<open>
  \<open>parse\<close>: the state after the generator is exhausted, the requests it yielded in
  order, and the exception that ended it, if any.
\<close>

fun product_requests :: "web \<Rightarrow> string \<Rightarrow> string set \<Rightarrow> string list \<Rightarrow> string set \<times> request list" where
  "product_requests env url visited [] = (visited, [])"
| "product_requests env url visited (link # links) =
     (if link \<notin> visited then
        (case product_requests env url (insert link visited) links of
           (visited', reqs) \<Rightarrow> (visited', (urljoin env url link, ParseProductPage) # reqs))
      else product_requests env url visited links)"

definition parse :: "web \<Rightarrow> spider \<Rightarrow> response \<Rightarrow> spider \<times> request list \<times> exn option" where
  "parse env sp r =
     (case spider_extract_company_profile env sp r of
        Inl e \<Rightarrow> (sp, [], Some e)
      | Inr sp \<Rightarrow>
          (let company_links =
                 css r ''a[href*=\"about\"], a[href*=\"contact\"], a[href*=\"company\"]::attr(href)'';
               company_reqs = map (\<lambda>link. (urljoin env (response_url r) link, ParseCompanyPage))
                                  (take 3 company_links)
           in case spider_find_product_links env (response_soup r) of
                Inl e \<Rightarrow> (sp, company_reqs, Some e)
              | Inr product_links \<Rightarrow>
                  (case product_requests env (response_url r) (visited_product_urls sp)
                          (take 50 product_links) of
                     (visited, reqs) \<Rightarrow>
                       (sp\<lparr>visited_product_urls := visited\<rparr>, company_reqs @ reqs, None))))"

definition parse_company_page :: "spider \<Rightarrow> response \<Rightarrow> spider \<times> exn option" where
  "parse_company_page sp r =
     (let s = response_soup r;
          cd = fill_field ''email'' (web_extract_email s) (spider_company_data sp);
          cd = fill_field ''address'' (spider_extract_address s) cd;
          cd = fill_field ''phone'' (web_extract_phone s) cd;
          sp = sp\<lparr>spider_company_data := cd\<rparr>
      in case bind_exn (spider_extract_description s) (\<lambda>description. longer_description description cd) of
           Inl e \<Rightarrow> (sp, Some e)
         | Inr cd' \<Rightarrow> (sp\<lparr>spider_company_data := cd'\<rparr>, None))"

definition parse_product_page :: "web \<Rightarrow> spider \<Rightarrow> response \<Rightarrow> spider \<times> exn option" where
  "parse_product_page env sp r =
     (case spider_extract_product_data env (response_soup r) (response_url r) of
        Inl e \<Rightarrow> (sp, Some e)
      | Inr product_data \<Rightarrow>
          (if product_data \<noteq> [] \<and> truthy (dict_get product_data ''productName'')
           then sp\<lparr>spider_products_data := spider_products_data sp @ [product_data]\<rparr>
           else sp, None))"

text \<open>
  \<open>run_crawler\<close>: \<open>runner.crawl\<close> ends with the spider or raises; the envelope that is
  printed.
\<close>

definition run_crawler :: "exn + spider \<Rightarrow> dict" where
  "run_crawler crawled =
     (case crawled of
        Inr sp \<Rightarrow> success_envelope (spider_company_data sp) (spider_products_data sp)
      | Inl e \<Rightarrow> failed_envelope [] e)"

section \<open>Notions used in the statements\<close>

text \<open>
  The first match of a pattern at a state, and patterns that match at every state.
\<close>

definition first_ms :: "rx \<Rightarrow> mstate \<Rightarrow> mstate option" where
  "first_ms r st = (case ms r st of [] \<Rightarrow> None | x # _ \<Rightarrow> Some x)"







text \<open>
  The least number of characters a pattern consumes, and patterns without a capturing
  group.
\<close>

fun min_len :: "rx \<Rightarrow> nat" where
  "min_len Eps = 0"
| "min_len (Cls p) = 1"
| "min_len (Rep p lo hi) = lo"
| "min_len (Seq a b) = min_len a + min_len b"
| "min_len (Alt a b) = min (min_len a) (min_len b)"
| "min_len (Opt a) = 0"
| "min_len (Grp i a) = min_len a"
| "min_len WordB = 0"

fun no_grp :: "rx \<Rightarrow> bool" where
  "no_grp (Seq a b) = (no_grp a \<and> no_grp b)"
| "no_grp (Alt a b) = (no_grp a \<and> no_grp b)"
| "no_grp (Opt a) = no_grp a"
| "no_grp (Grp i a) = False"
| "no_grp r = True"









text \<open>
  For the product records: the name of a record, its identity (the name trimmed and
  lower-cased), and what \<open>recycledContent\<close> may hold when it is present.
\<close>

definition product_name :: "dict \<Rightarrow> string" where
  "product_name p = (case dict_get p ''productName'' of PStr n \<Rightarrow> n | _ \<Rightarrow> [])"










text \<open>
  The two shapes of the result envelope: the four keys of a success with
  \<open>success = True\<close>, or the two keys of a failure with \<open>success = False\<close> and an error
  string.
\<close>

definition success_shape :: "dict \<Rightarrow> bool" where
  "success_shape e =
     (map fst e = [''success'', ''supplierData'', ''productsData'', ''totalProducts''] \<and>
      dict_get e ''success'' = PBool True)"

definition failure_shape :: "dict \<Rightarrow> bool" where
  "failure_shape e =
     (map fst e = [''success'', ''error''] \<and> dict_get e ''success'' = PBool False \<and>
      (\<exists>msg. dict_get e ''error'' = PStr msg))"

text \<open>
  For the company profile: the three contact fields; a value an extractor of a contact
  field can return (\<open>None\<close> or a truthy value); and the step Scrapy takes when it hands
  a response to the callback of its request.
\<close>

definition contact_fields :: "string set" where
  "contact_fields = {''email'', ''address'', ''phone''}"

definition contact_value :: "pyval \<Rightarrow> bool" where
  "contact_value v = (v = PNone \<or> truthy v)"

definition callback_step :: "web \<Rightarrow> spider \<Rightarrow> callback \<times> response \<Rightarrow> spider" where
  "callback_step env sp x =
     (case fst x of
        ParseCompanyPage \<Rightarrow> fst (parse_company_page sp (snd x))
      | ParseProductPage \<Rightarrow> fst (parse_product_page env sp (snd x)))"

text \<open>The contact fields after the three conditional assignments of a company page.\<close>

definition fill_contacts :: "pyval \<Rightarrow> pyval \<Rightarrow> pyval \<Rightarrow> dict \<Rightarrow> dict" where
  "fill_contacts email address phone cd =
     fill_field ''phone'' phone (fill_field ''address'' address (fill_field ''email'' email cd))"

section \<open>Example inputs\<close>

text \<open>
  Concrete inputs for the witnesses and counterexamples. \<open>demo_netloc\<close> reads the host of
  an \<open>http://\<close> URL, \<open>demo_urljoin\<close> joins an absolute link (the result is the link),
  \<open>remdups\<close> is one order \<open>list(set(xs))\<close> may give.

  \<open>jar_site\<close> is a shop whose main page links two product pages; both pages have the
  heading \<open>Glass Jar\<close>. \<open>dual_site\<close> is a shop whose main page has one link,
  \<open>/company/products\<close>, that the company selectors and the product selectors both select.
\<close>

definition demo_netloc :: "string \<Rightarrow> exn + string" where
  "demo_netloc url =
     Inr (if startswith url ''http://'' then takeWhile (\<lambda>c. c \<noteq> CHR ''/'') (drop 7 url) else [])"

definition demo_urljoin :: "string \<Rightarrow> string \<Rightarrow> string" where
  "demo_urljoin base href = href"

definition empty_soup :: soup where
  "empty_soup = \<lparr>soup_text = [], select = (\<lambda>selector. Inr []), find_all = (\<lambda>tag. []),
                  tables = [], dls = [], strings = []\<rparr>"

definition link_to :: "string \<Rightarrow> element" where
  "link_to href = \<lparr>attrs = [(''href'', href)], get_text = ''more'', get_text_strip = ''more''\<rparr>"

definition heading :: "string \<Rightarrow> element" where
  "heading t = \<lparr>attrs = [], get_text = t, get_text_strip = t\<rparr>"

definition jar_main :: soup where
  "jar_main = empty_soup\<lparr>select := (\<lambda>selector.
     if selector = ''a[href*=\"product\"]''
     then Inr [link_to ''http://shop.test/product/1'', link_to ''http://shop.test/product/2'']
     else Inr [])\<rparr>"

definition jar_page :: soup where
  "jar_page = empty_soup\<lparr>select := (\<lambda>selector.
     if selector = ''h1'' then Inr [heading ''Glass Jar''] else Inr [])\<rparr>"

definition jar_site :: web where
  "jar_site = \<lparr>http_get = (\<lambda>url.
                   if url = ''http://shop.test/'' then Inr jar_main
                   else if url = ''http://shop.test/product/1'' \<or> url = ''http://shop.test/product/2''
                     then Inr jar_page
                   else Inl ''404 Client Error''),
                urljoin = demo_urljoin, netloc = demo_netloc, list_set = remdups\<rparr>"

definition dual_main :: soup where
  "dual_main = empty_soup\<lparr>select := (\<lambda>selector.
     if selector = ''a[href*=\"company\"]'' \<or> selector = ''a[href*=\"product\"]''
     then Inr [link_to ''http://shop.test/company/products'']
     else Inr [])\<rparr>"

definition dual_site :: web where
  "dual_site = \<lparr>http_get = (\<lambda>url.
                    if url = ''http://shop.test/'' then Inr dual_main
                    else if url = ''http://shop.test/company/products'' then Inr jar_page
                    else Inl ''404 Client Error''),
                 urljoin = demo_urljoin, netloc = demo_netloc, list_set = remdups\<rparr>"

definition shop_crawler :: crawler where
  "shop_crawler = \<lparr>start_url = ''http://shop.test/'', base_domain = ''shop.test'', company_data = [],
                    products_data = [], visited_urls = {}, requests = [], stderr = []\<rparr>"


text \<open>
  \<open>contact_site\<close> is a shop whose main page shows an e-mail address and links a contact
  page; the contact page shows another e-mail address and a phone number, and has a
  description meta tag. The main page has no description.
\<close>

definition meta_tag :: "string \<Rightarrow> string \<Rightarrow> element" where
  "meta_tag name content = \<lparr>attrs = [(''name'', name), (''content'', content)], get_text = [],
                              get_text_strip = []\<rparr>"

definition contact_main :: soup where
  "contact_main = empty_soup\<lparr>soup_text := ''Mail sales@shop.test'',
     select := (\<lambda>selector.
       if selector = ''a[href*=\"contact\"]'' then Inr [link_to ''http://shop.test/contact'']
       else Inr [])\<rparr>"

definition contact_page :: soup where
  "contact_page = empty_soup\<lparr>soup_text := ''Mail info@shop.test or call 555-123-4567'',
     select := (\<lambda>selector.
       if selector = ''meta[name=\"description\"]''
       then Inr [meta_tag ''description'' ''Glass packaging since 1990'']
       else Inr []),
     find_all := (\<lambda>tag.
       if tag = ''meta'' then [meta_tag ''description'' ''Glass packaging since 1990''] else [])\<rparr>"

definition contact_site :: web where
  "contact_site = \<lparr>http_get = (\<lambda>url.
                       if url = ''http://shop.test/'' then Inr contact_main
                       else if url = ''http://shop.test/contact'' then Inr contact_page
                       else Inl ''404 Client Error''),
                    urljoin = demo_urljoin, netloc = demo_netloc, list_set = remdups\<rparr>"

definition shop_spider :: spider where
  "shop_spider = \<lparr>spider_company_data = [], spider_products_data = [], visited_product_urls = {}\<rparr>"

definition response_of :: "string \<Rightarrow> soup \<Rightarrow> response" where
  "response_of url s = \<lparr>response_url = url, response_soup = s, css = (\<lambda>q. [])\<rparr>"

text \<open>The crawler and the spider after the company profile of the main page of \<open>contact_site\<close>.\<close>

definition contact_profile :: dict where
  "contact_profile =
     [(''companyName'', PStr ''Shop.Test''), (''website'', PStr ''http://shop.test/''),
      (''email'', PStr ''sales@shop.test''), (''address'', PNone), (''phone'', PNone),
      (''supplierType'', PStr ''Packaging''), (''description'', PNone)]"

definition contact_profiled :: crawler where
  "contact_profiled = shop_crawler\<lparr>company_data := contact_profile\<rparr>"

definition spider_profiled :: spider where
  "spider_profiled = shop_spider\<lparr>spider_company_data := contact_profile\<rparr>"

section \<open>Facts about the matcher\<close>


lemma first_ms_None: "first_ms r st = None \<longleftrightarrow> ms r st = []"
  by (simp add: first_ms_def split: list.splits)







lemma ms_Cls_det: "length (ms (Cls p) st) \<le> 1"
  by (cases st) (simp split: list.splits)










lemma lower_char_idem: "lower_char (lower_char c) = lower_char c"
  by (simp add: lower_char_def split: option.splits if_splits)

lemma ms_liti_det: "length (ms (liti u) st) \<le> 1"
proof (induction u arbitrary: st)
  case Nil
  then show ?case by simp
next
  case (Cons c u)
  obtain bef rest g where st: "st = (bef, rest, g)" by (cases st)
  show ?case
  proof (cases "ms (Cls (ci c)) st")
    case Nil
    then show ?thesis by simp
  next
    case (Cons x xs)
    with ms_Cls_det[of "ci c" st] have "xs = []" by simp
    with Cons Cons.IH[of x] show ?thesis by simp
  qed
qed









lemma is_digit_not_dot: "is_digit c \<Longrightarrow> c \<noteq> CHR ''.''"
  by (auto simp: is_digit_def)

lemma py_float_digits:
  assumes "xs \<noteq> []" and "list_all is_digit xs"
  shows "py_float xs = Inr (of_int (digits_val xs))"
proof -
  have nd: "\<forall>x\<in>set xs. x \<noteq> CHR ''.''"
    using assms(2) by (auto simp: list_all_iff dest: is_digit_not_dot)
  have tk: "takeWhile (\<lambda>c. c \<noteq> CHR ''.'') xs = xs"
    using nd by simp
  have dk: "dropWhile (\<lambda>c. c \<noteq> CHR ''.'') xs = []"
    using nd by simp
  show ?thesis unfolding py_float_def Let_def tk dk
    using assms by (simp add: is_digits_def)
qed

lemma py_float_fraction:
  assumes "xs \<noteq> []" and "list_all is_digit xs" and "ys \<noteq> []" and "list_all is_digit ys"
  shows "py_float (xs @ CHR ''.'' # ys) =
           Inr (of_int (digits_val xs) + of_int (digits_val ys) / 10 ^ length ys)"
proof -
  have nd: "\<forall>x\<in>set xs. x \<noteq> CHR ''.''"
    using assms(2) by (auto simp: list_all_iff dest: is_digit_not_dot)
  have tk: "takeWhile (\<lambda>c. c \<noteq> CHR ''.'') (xs @ CHR ''.'' # ys) = xs"
    using nd by (simp add: takeWhile_append2)
  have dk: "dropWhile (\<lambda>c. c \<noteq> CHR ''.'') (xs @ CHR ''.'' # ys) = CHR ''.'' # ys"
    using nd by (simp add: dropWhile_append2)
  show ?thesis unfolding py_float_def Let_def tk dk
    using assms by (simp add: is_digits_def)
qed





section \<open>Facts about dicts\<close>

lemma map_of_dict_set: "map_of (dict_set d k v) k' = (if k' = k then Some v else map_of d k')"
  by (simp add: dict_set_def update_conv')

lemma dict_get_set: "dict_get (dict_set d k v) k' = (if k' = k then v else dict_get d k')"
  by (simp add: dict_get_def map_of_dict_set)



lemma dict_update_Nil: "dict_update d [] = d"
  by (simp add: dict_update_def)

lemma dict_update_Cons: "dict_update d ((k, v) # e) = dict_update (dict_set d k v) e"
  by (simp add: dict_update_def dict_set_def)

lemma dict_set_not_Nil: "dict_set d k v \<noteq> []"
  by (cases d) (auto simp: dict_set_def)


section \<open>Numbers\<close>







section \<open>What a match consumes and captures\<close>

lemma ms_Rep_mem:
  assumes "st \<in> set (ms (Rep p lo hi) (bef, rest, g))"
  shows "\<exists>k. lo \<le> k \<and> k \<le> length (takeWhile p rest) \<and>
             st = (rev (take k rest) @ bef, drop k rest, g)"
proof -
  define m where "m = (case hi of None \<Rightarrow> length (takeWhile p rest)
                       | Some h \<Rightarrow> min (length (takeWhile p rest)) h)"
  have m: "m \<le> length (takeWhile p rest)"
    by (simp add: m_def split: option.splits)
  from assms have "st \<in> (\<lambda>k. (rev (take k rest) @ bef, drop k rest, g)) ` set (rev [lo..<Suc m])"
    by (simp add: Let_def m_def)
  then obtain k where "k \<in> set (rev [lo..<Suc m])" "st = (rev (take k rest) @ bef, drop k rest, g)"
    by blast
  with m show ?thesis by auto
qed

lemma ms_Grp_mem:
  assumes "(bef', rest', g') \<in> set (ms (Grp i a) (bef, rest, g))"
  shows "\<exists>g0. (bef', rest', g0) \<in> set (ms a (bef, rest, g)) \<and>
              g' = (i, rev (take (length bef' - length bef) bef')) # g0"
  using assms by auto

lemma ms_Seq_mem:
  assumes "st \<in> set (ms (Seq a b) st0)"
  shows "\<exists>st1. st1 \<in> set (ms a st0) \<and> st \<in> set (ms b st1)"
  using assms by auto

lemma ms_consumes:
  "(bef', rest', g') \<in> set (ms r (bef, rest, g)) \<Longrightarrow>
   \<exists>mt. bef' = rev mt @ bef \<and> rest = mt @ rest' \<and> min_len r \<le> length mt"
proof (induction r arbitrary: bef rest g bef' rest' g')
  case Eps
  then show ?case by simp
next
  case (Cls p)
  then show ?case by (cases rest) (auto split: if_splits)
next
  case (Rep p lo hi)
  from ms_Rep_mem[OF Rep] obtain k where k: "lo \<le> k" "bef' = rev (take k rest) @ bef"
    "rest' = drop k rest" "k \<le> length (takeWhile p rest)"
    by auto
  have "k \<le> length rest"
    using k(4) length_takeWhile_le[of p rest] by linarith
  then have "length (take k rest) = k" by simp
  with k show ?case
    by (intro exI[of _ "take k rest"]) simp
next
  case (Seq a b)
  then obtain b1 r1 g1 where 1: "(b1, r1, g1) \<in> set (ms a (bef, rest, g))"
    and 2: "(bef', rest', g') \<in> set (ms b (b1, r1, g1))"
    by auto
  from Seq.IH(1)[OF 1] obtain t1 where t1: "b1 = rev t1 @ bef" "rest = t1 @ r1" "min_len a \<le> length t1"
    by blast
  from Seq.IH(2)[OF 2] obtain t2 where t2: "bef' = rev t2 @ b1" "r1 = t2 @ rest'" "min_len b \<le> length t2"
    by blast
  from t1 t2 show ?case
    by (intro exI[of _ "t1 @ t2"]) simp
next
  case (Alt a b)
  then consider "(bef', rest', g') \<in> set (ms a (bef, rest, g))"
    | "(bef', rest', g') \<in> set (ms b (bef, rest, g))"
    by auto
  then show ?case
  proof cases
    case 1
    from Alt.IH(1)[OF 1] show ?thesis by auto
  next
    case 2
    from Alt.IH(2)[OF 2] show ?thesis by auto
  qed
next
  case (Opt a)
  then consider "(bef', rest', g') \<in> set (ms a (bef, rest, g))"
    | "(bef', rest', g') = (bef, rest, g)"
    by auto
  then show ?case
  proof cases
    case 1
    from Opt.IH[OF 1] show ?thesis by auto
  next
    case 2
    then show ?thesis by simp
  qed
next
  case (Grp i a)
  then obtain g1 where "(bef', rest', g1) \<in> set (ms a (bef, rest, g))"
    by auto
  from Grp.IH[OF this] show ?case by simp
next
  case WordB
  then show ?case by (simp split: if_splits)
qed

lemma ms_no_grp:
  "no_grp r \<Longrightarrow> (bef', rest', g') \<in> set (ms r (bef, rest, g)) \<Longrightarrow> g' = g"
proof (induction r arbitrary: bef rest g bef' rest' g')
  case (Cls p)
  then show ?case by (cases rest) (auto split: if_splits)
next
  case (Rep p lo hi)
  then show ?case by (auto simp: Let_def)
next
  case (Seq a b)
  then obtain b1 r1 g1 where 1: "(b1, r1, g1) \<in> set (ms a (bef, rest, g))"
    and 2: "(bef', rest', g') \<in> set (ms b (b1, r1, g1))"
    by auto
  from Seq.IH(1)[OF _ 1] Seq.prems(1) have "g1 = g" by simp
  moreover from Seq.IH(2)[OF _ 2] Seq.prems(1) have "g' = g1" by simp
  ultimately show ?case by simp
next
  case (Alt a b)
  then show ?case by auto
next
  case (Opt a)
  then show ?case by auto
qed (auto split: if_splits)

lemma ms_captures:
  assumes "no_grp x" and "no_grp y"
    and "(bef', rest', g') \<in> set (ms (Seq (Grp i x) y) (bef, rest, g))"
  shows "\<exists>mt r1. (rev mt @ bef, r1, g) \<in> set (ms x (bef, rest, g)) \<and> g' = (i, mt) # g"
proof -
  from ms_Seq_mem[OF assms(3)] obtain st1 where s1: "st1 \<in> set (ms (Grp i x) (bef, rest, g))"
    and s2: "(bef', rest', g') \<in> set (ms y st1)"
    by blast
  obtain b1 r1 g1 where st1: "st1 = (b1, r1, g1)" by (cases st1)
  note 1 = s1[unfolded st1] and 2 = s2[unfolded st1]
  from ms_Grp_mem[OF 1] obtain g0 where 3: "(b1, r1, g0) \<in> set (ms x (bef, rest, g))"
    and g1: "g1 = (i, rev (take (length b1 - length bef) b1)) # g0"
    by blast
  from ms_no_grp[OF assms(1) 3] have g0: "g0 = g" .
  from ms_consumes[OF 3] obtain mt where mt: "b1 = rev mt @ bef" by blast
  then have "rev (take (length b1 - length bef) b1) = mt" by simp
  with g1 g0 have "g1 = (i, mt) # g" by simp
  moreover from ms_no_grp[OF assms(2) 2] have "g' = g1" .
  ultimately show ?thesis using 3 mt g0 by (intro exI[of _ mt] exI[of _ r1]) simp
qed

lemma ms_Rep_text:
  assumes "(rev mt @ bef, r1, g) \<in> set (ms (Rep p lo hi) (bef, rest, g))"
  shows "list_all p mt \<and> lo \<le> length mt"
proof -
  from ms_Rep_mem[OF assms] obtain k where k: "lo \<le> k" "rev mt @ bef = rev (take k rest) @ bef"
    "k \<le> length (takeWhile p rest)"
    by auto
  from k(2) have t: "mt = take k rest" by simp
  have "take k rest = take k (takeWhile p rest)"
    using k(3) by (metis takeWhile_eq_take take_take min.absorb1)
  then have "set mt \<subseteq> set (takeWhile p rest)"
    using t by (metis set_take_subset)
  then have "list_all p mt"
    by (auto simp: list_all_iff dest: set_takeWhileD)
  moreover have "length mt = k"
    using t k(3) length_takeWhile_le[of p rest] by simp
  ultimately show ?thesis using k(1) by simp
qed

lemma search_from_sound:
  "search_from r bef s = Some (pre, mt, post, g) \<Longrightarrow>
   s = pre @ mt @ post \<and> min_len r \<le> length mt \<and>
   (rev mt @ rev pre @ bef, post, g) \<in> set (ms r (rev pre @ bef, mt @ post, []))"
proof (induction s arbitrary: bef pre)
  case Nil
  then obtain bef' where m: "ms r (bef, [], []) \<noteq> []" "hd (ms r (bef, [], [])) = (bef', post, g)"
    and p: "pre = []" and t: "mt = rev (take (length bef' - length bef) bef')"
    by (auto split: list.splits)
  from m have mem: "(bef', post, g) \<in> set (ms r (bef, [], []))"
    by (metis hd_in_set)
  from ms_consumes[OF mem] obtain tx where tx: "bef' = rev tx @ bef" "[] = tx @ post" "min_len r \<le> length tx"
    by blast
  with t have "mt = tx" by simp
  with tx mem p show ?case by simp
next
  case (Cons c cs)
  show ?case
  proof (cases "ms r (bef, c # cs, [])")
    case Nil
    with Cons.prems obtain pre' where s: "search_from r (c # bef) cs = Some (pre', mt, post, g)"
      and p: "pre = c # pre'"
      by (auto split: prod.splits)
    from Cons.IH[OF s] p show ?thesis by simp
  next
    case (Cons st sts)
    obtain bef' rest' g' where st: "st = (bef', rest', g')" by (cases st)
    with Cons Cons.prems have p: "pre = []" and t: "mt = rev (take (length bef' - length bef) bef')"
      and e: "rest' = post" "g' = g"
      by auto
    have mem: "(bef', post, g) \<in> set (ms r (bef, c # cs, []))"
      using Cons st e by simp
    from ms_consumes[OF mem] obtain tx where tx: "bef' = rev tx @ bef" "c # cs = tx @ post"
      "min_len r \<le> length tx"
      by blast
    with t have "mt = tx" by simp
    with tx mem p show ?thesis by simp
  qed
qed

lemma re_search_sound:
  "re_search r s = Some (pre, mt, post, g) \<Longrightarrow>
   s = pre @ mt @ post \<and> min_len r \<le> length mt \<and>
   (rev mt @ rev pre, post, g) \<in> set (ms r (rev pre, mt @ post, []))"
  using search_from_sound[of r "[]" s pre mt post g] by (simp add: re_search_def)

section \<open>Facts about the field parsers\<close>


lemma ms_number_text:
  assumes "(rev mt @ bef, r1, g) \<in> set (ms number_rx (bef, rest, g))"
  shows "\<exists>w. py_float mt = Inr w"
proof -
  from ms_Seq_mem[OF assms[unfolded number_rx_def many1_def]]
  obtain st1 where s1: "st1 \<in> set (ms (Rep is_digit 1 None) (bef, rest, g))"
    and s2: "(rev mt @ bef, r1, g) \<in> set (ms (Opt (Seq (Cls (ch CHR ''.'')) (Rep is_digit 1 None))) st1)"
    by blast
  obtain b1 ra g1 where st1: "st1 = (b1, ra, g1)" by (cases st1)
  from ms_no_grp[OF _ s1[unfolded st1]] have g1: "g1 = g" by simp
  from ms_consumes[OF s1[unfolded st1]] obtain a where a: "b1 = rev a @ bef" by blast
  from ms_Rep_text[OF s1[unfolded st1 a g1]] have da: "list_all is_digit a" "a \<noteq> []"
    by auto
  from s2 consider "(rev mt @ bef, r1, g) = st1"
    | "(rev mt @ bef, r1, g) \<in> set (ms (Seq (Cls (ch CHR ''.'')) (Rep is_digit 1 None)) st1)"
    by auto
  then show ?thesis
  proof cases
    case 1
    then have "mt = a" using st1 a by simp
    then show ?thesis using py_float_digits[OF da(2) da(1)] by simp
  next
    case 2
    from ms_Seq_mem[OF 2] obtain st2 where t1: "st2 \<in> set (ms (Cls (ch CHR ''.'')) st1)"
      and t2: "(rev mt @ bef, r1, g) \<in> set (ms (Rep is_digit 1 None) st2)"
      by blast
    from t1 obtain rb where st2: "st2 = (CHR ''.'' # rev a @ bef, rb, g)"
      unfolding st1 a g1 by (cases ra) (auto simp: ch_def split: if_splits)
    from ms_consumes[OF t2[unfolded st2]] obtain b where b: "rev mt @ bef = rev b @ CHR ''.'' # rev a @ bef"
      by blast
    from ms_Rep_text[OF t2[unfolded st2 b]] have db: "list_all is_digit b" "b \<noteq> []"
      by auto
    from b have "rev (rev mt) = rev (rev b @ CHR ''.'' # rev a)" by simp
    then have "mt = a @ CHR ''.'' # b" by simp
    then show ?thesis using py_float_fraction[OF da(2) da(1) db(2) db(1)] by simp
  qed
qed

lemma no_grp_lit: "no_grp (lit s)"
  by (induction s) auto

lemma no_grp_liti: "no_grp (liti s)"
  by (induction s) auto

lemma no_grp_number: "no_grp number_rx"
  by (simp add: number_rx_def many1_def)


lemma web_extract_percentage_cases:
  "web_extract_percentage t = Inr PNone \<or> (\<exists>w. web_extract_percentage t = Inr (PFloat w))"
proof (cases "re_search web_percent_rx t")
  case None
  then show ?thesis by (simp add: web_extract_percentage_def)
next
  case (Some m)
  obtain pre mt post g where m: "m = (pre, mt, post, g)" by (cases m)
  from re_search_sound[OF Some[unfolded m]]
  have mem: "(rev mt @ rev pre, post, g) \<in> set (ms web_percent_rx (rev pre, mt @ post, []))"
    by simp
  from ms_captures[OF no_grp_number _ mem[unfolded web_percent_rx_def many_def]]
  obtain ds r1 where ds: "(rev ds @ rev pre, r1, []) \<in> set (ms number_rx (rev pre, mt @ post, []))"
    and g: "g = [(1, ds)]"
    by auto
  from ms_number_text[OF ds] obtain w where "py_float ds = Inr w" by blast
  then show ?thesis using Some m g
    by (simp add: web_extract_percentage_def float_group_def match_group_def)
qed





section \<open>Facts about the table interpreter\<close>





section \<open>Facts about the document pipeline\<close>











section \<open>Facts about the entries of a record\<close>








section \<open>Facts about the records of the document variant\<close>






section \<open>Facts about trimmed names\<close>







section \<open>Facts about the section record builder\<close>










section \<open>Facts about the deduplicator\<close>






section \<open>Facts about the records of the crawlers\<close>

lemma foldl_inv:
  assumes "\<forall>s x. P s \<longrightarrow> P (f s x)" and "P s"
  shows "P (foldl f s xs)"
  using assms(2)
proof (induction xs arbitrary: s)
  case Nil
  then show ?case by simp
next
  case (Cons x xs)
  from assms(1) Cons.prems have "P (f s x)" by blast
  from Cons.IH[OF this] show ?case by simp
qed


lemma product_dict_not_Nil: "product_dict pn d specs imgs url \<noteq> []"
  by (simp add: product_dict_def)





























section \<open>Field parsers: the default unit\<close>




section \<open>Table interpreter: which rows yield a record\<close>




section \<open>Company name: the fallback chain\<close>






section \<open>Product records: names and recycled content\<close>







section \<open>The result envelope\<close>


lemma failed_envelope_shape:
  "failure_shape (failed_envelope prefix e) \<and> \<not> success_shape (failed_envelope prefix e)"
  by (simp add: success_shape_def failure_shape_def failed_envelope_def dict_get_def)

lemma pdf_failed_shape:
  "failure_shape [(''success'', PBool False), (''error'', PStr msg)] \<and>
   \<not> success_shape [(''success'', PBool False), (''error'', PStr msg)]"
  by (simp add: success_shape_def failure_shape_def dict_get_def)

lemma extract_all_data_cases:
  "extract_all_data opened =
     (case bind_exn opened (\<lambda>pages. bind_exn (extract_company_profile pages)
             (\<lambda>cd. bind_exn (extract_product_listings pages [])
                (\<lambda>ps. Inr (cd, ps)))) of
        Inl e \<Rightarrow> [(''success'', PBool False), (''error'', PStr (''PDF extraction failed: '' @ e))]
      | Inr (cd, ps) \<Rightarrow> success_envelope cd ps)"
proof (cases opened)
  case (Inl e)
  then show ?thesis by (simp add: extract_all_data_def)
next
  case (Inr pages)
  show ?thesis
  proof (cases "extract_company_profile pages")
    case (Inl e)
    with Inr show ?thesis by (simp add: extract_all_data_def)
  next
    case cd: (Inr cdata)
    show ?thesis
      using Inr cd by (cases "extract_product_listings pages []") (simp_all add: extract_all_data_def)
  qed
qed

lemma catalog_envelope_cases:
  "snd (crawl_supplier_catalog env c0) =
     (case bind_exn (http_get env (start_url c0))
             (\<lambda>s. web_extract_company_profile env (c0\<lparr>requests := requests c0 @ [start_url c0]\<rparr>) s
                     (start_url c0)) of
        Inl e \<Rightarrow> failed_envelope ''Crawling failed: '' e
      | Inr c1 \<Rightarrow>
          success_envelope (company_data (fst (crawl_supplier_catalog env c0)))
                           (products_data (fst (crawl_supplier_catalog env c0))))"
proof (cases "http_get env (start_url c0)")
  case (Inl e)
  then show ?thesis by (simp add: crawl_supplier_catalog_def)
next
  case (Inr s)
  then show ?thesis
    by (cases "web_extract_company_profile env (c0\<lparr>requests := requests c0 @ [start_url c0]\<rparr>) s
                 (start_url c0)")
       (simp_all add: crawl_supplier_catalog_def Let_def)
qed



text \<open>
  Claim C9. In every success envelope of the three variants, \<open>totalProducts\<close> is the
  length of the \<open>productsData\<close> list.
\<close>

theorem total_products_is_length:
  "(success_shape (extract_all_data opened) \<longrightarrow>
      (\<exists>ps. dict_get (extract_all_data opened) ''productsData'' = PList ps \<and>
            dict_get (extract_all_data opened) ''totalProducts'' = PInt (int (length ps)))) \<and>
   (success_shape (snd (crawl_supplier_catalog env c0)) \<longrightarrow>
      (\<exists>ps. dict_get (snd (crawl_supplier_catalog env c0)) ''productsData'' = PList ps \<and>
            dict_get (snd (crawl_supplier_catalog env c0)) ''totalProducts'' = PInt (int (length ps)))) \<and>
   (success_shape (run_crawler crawled) \<longrightarrow>
      (\<exists>ps. dict_get (run_crawler crawled) ''productsData'' = PList ps \<and>
            dict_get (run_crawler crawled) ''totalProducts'' = PInt (int (length ps))))"
proof -
  have s: "\<exists>ps'. dict_get (success_envelope cd ps) ''productsData'' = PList ps' \<and>
                 dict_get (success_envelope cd ps) ''totalProducts'' = PInt (int (length ps'))" for cd ps
    by (simp add: success_envelope_def dict_get_def)
  have 1: "success_shape (extract_all_data opened) \<longrightarrow>
      (\<exists>ps. dict_get (extract_all_data opened) ''productsData'' = PList ps \<and>
            dict_get (extract_all_data opened) ''totalProducts'' = PInt (int (length ps)))"
    unfolding extract_all_data_cases using s pdf_failed_shape
    by (auto split: sum.splits)
  have 2: "success_shape (snd (crawl_supplier_catalog env c0)) \<longrightarrow>
      (\<exists>ps. dict_get (snd (crawl_supplier_catalog env c0)) ''productsData'' = PList ps \<and>
            dict_get (snd (crawl_supplier_catalog env c0)) ''totalProducts'' = PInt (int (length ps)))"
    unfolding catalog_envelope_cases using s failed_envelope_shape
    by (auto split: sum.splits)
  have 3: "success_shape (run_crawler crawled) \<longrightarrow>
      (\<exists>ps. dict_get (run_crawler crawled) ''productsData'' = PList ps \<and>
            dict_get (run_crawler crawled) ''totalProducts'' = PInt (int (length ps)))"
    using s failed_envelope_shape by (cases crawled) (auto simp: run_crawler_def)
  from 1 2 3 show ?thesis by blast
qed

text \<open>The run on \<open>jar_site\<close> ends with two records and \<open>totalProducts = 2\<close>.\<close>

theorem total_products_is_length_witness:
  "success_shape (snd (crawl_supplier_catalog jar_site shop_crawler)) \<and>
   dict_get (snd (crawl_supplier_catalog jar_site shop_crawler)) ''totalProducts'' = PInt 2 \<and>
   (\<exists>ps. dict_get (snd (crawl_supplier_catalog jar_site shop_crawler)) ''productsData'' = PList ps \<and>
         length ps = 2)"
proof -
  have a: "success_shape (snd (crawl_supplier_catalog jar_site shop_crawler))"
    by code_simp
  have b: "dict_get (snd (crawl_supplier_catalog jar_site shop_crawler)) ''totalProducts'' = PInt 2"
    by code_simp
  from a total_products_is_length[of "Inl []" jar_site shop_crawler "Inl []"]
  obtain ps where "dict_get (snd (crawl_supplier_catalog jar_site shop_crawler)) ''productsData'' = PList ps"
    and "dict_get (snd (crawl_supplier_catalog jar_site shop_crawler)) ''totalProducts'' = PInt (int (length ps))"
    by blast
  with a b show ?thesis by auto
qed

section \<open>The company profile across company pages\<close>

lemma group0_not_Nil:
  assumes "re_search r s = Some m" and "0 < min_len r"
  shows "group0 m \<noteq> []"
proof -
  obtain pre mt post g where m: "m = (pre, mt, post, g)" by (cases m) auto
  from re_search_sound[of r s pre mt post g] assms(1) m have "min_len r \<le> length mt" by simp
  with assms(2) have "mt \<noteq> []" by (cases mt) simp_all
  with m show ?thesis by (simp add: group0_def)
qed

lemma re_found_not_Nil:
  assumes "re_found r s" and "0 < min_len r"
  shows "s \<noteq> []"
proof -
  from assms(1) obtain m where m: "re_search r s = Some m" by (auto simp: re_found_def)
  obtain pre mt post g where mm: "m = (pre, mt, post, g)" by (cases m) auto
  from re_search_sound[of r s pre mt post g] m mm
  have s: "s = pre @ mt @ post" and l: "min_len r \<le> length mt"
    by simp_all
  from l assms(2) have "mt \<noteq> []" by (cases mt) simp_all
  with s show ?thesis by simp
qed

lemma min_len_email: "min_len email_rx = 6"
  by (simp add: email_rx_def many1_def)

lemma min_len_phone: "min_len web_phone_rx = 10"
  by (simp add: web_phone_rx_def opt1_def)

lemma min_len_code: "min_len code_rx = 5"
  by (simp add: code_rx_def)

lemma email_value: "contact_value (web_extract_email s)"
  using group0_not_Nil[of email_rx "soup_text s"]
  by (auto simp: contact_value_def web_extract_email_def extract_email_def min_len_email
           split: option.splits)

lemma phone_value: "contact_value (web_extract_phone s)"
  using group0_not_Nil[of web_phone_rx "soup_text s"]
  by (auto simp: contact_value_def web_extract_phone_def min_len_phone split: option.splits)

lemma first_address_value: "contact_value (first_address ps t)"
  by (induction ps) (auto simp: contact_value_def Let_def split: option.splits)

lemma address_value: "contact_value (web_extract_address s)"
  unfolding web_extract_address_def by (rule first_address_value)

lemma spider_address_value: "contact_value (spider_extract_address s)"
proof (cases "find (\<lambda>t. re_found code_rx t)
                (concat (map (address_candidates s) [''address'', ''location'', ''contact'']))")
  case None
  then show ?thesis by (simp add: spider_extract_address_def contact_value_def)
next
  case (Some t)
  then have "re_found code_rx t" by (auto simp: find_Some_iff)
  then have "t \<noteq> []" by (rule re_found_not_Nil) (simp add: min_len_code)
  with Some show ?thesis by (simp add: spider_extract_address_def contact_value_def)
qed

lemma fill_field_get:
  "dict_get (fill_field k v cd) k' =
     (if k' = k \<and> \<not> truthy (dict_get cd k) then v else dict_get cd k')"
  by (simp add: fill_field_def dict_get_set)

lemma fill_field_map_of:
  "map_of (fill_field k v cd) k' =
     (if k' = k \<and> \<not> truthy (dict_get cd k) then Some v else map_of cd k')"
  by (simp add: fill_field_def map_of_dict_set)

lemma fill_contacts_get:
  "dict_get (fill_contacts e a p cd) k =
     (if k = ''email'' \<and> \<not> truthy (dict_get cd k) then e
      else if k = ''address'' \<and> \<not> truthy (dict_get cd k) then a
      else if k = ''phone'' \<and> \<not> truthy (dict_get cd k) then p
      else dict_get cd k)"
  by (auto simp: fill_contacts_def fill_field_get)

lemma fill_contacts_description:
  "map_of (fill_contacts e a p cd) ''description'' = map_of cd ''description''"
  by (simp add: fill_contacts_def fill_field_map_of)

lemma longer_description_get:
  assumes "longer_description d cd = Inr cd'" and "k \<noteq> ''description''"
  shows "dict_get cd' k = dict_get cd k"
proof (cases "truthy d")
  case False
  with assms show ?thesis by (simp add: longer_description_def)
next
  case True
  with assms(1) obtain n where n: "py_len d = Inr n"
    by (cases "py_len d") (simp_all add: longer_description_def)
  with True assms(1) obtain j where j: "py_len (dict_get_default cd ''description'' (PStr [])) = Inr j"
    by (cases "py_len (dict_get_default cd ''description'' (PStr []))")
       (simp_all add: longer_description_def)
  from True n j assms show ?thesis
    by (auto simp: longer_description_def dict_get_set split: if_splits)
qed

lemma longer_description_None:
  assumes "map_of cd ''description'' = Some PNone"
  shows "longer_description d cd =
           (if truthy d then (case py_len d of Inl e \<Rightarrow> Inl e | Inr n \<Rightarrow> Inl ''TypeError'') else Inr cd)"
  using assms by (cases "py_len d") (simp_all add: longer_description_def dict_get_default_def)

lemma crawl_company_page_cases:
  "crawl_company_page env c url =
     (case http_get env url of
        Inl e \<Rightarrow> c\<lparr>requests := requests c @ [url],
                   stderr := stderr c @ [page_error ''company'' url e]\<rparr>
      | Inr s \<Rightarrow>
          (case bind_exn (web_extract_description s) (\<lambda>d.
                  longer_description d
                    (fill_contacts (web_extract_email s) (web_extract_address s) (web_extract_phone s)
                       (company_data c))) of
             Inl e \<Rightarrow> c\<lparr>requests := requests c @ [url],
                        company_data := fill_contacts (web_extract_email s) (web_extract_address s)
                                          (web_extract_phone s) (company_data c),
                        stderr := stderr c @ [page_error ''company'' url e]\<rparr>
           | Inr cd' \<Rightarrow> c\<lparr>requests := requests c @ [url], company_data := cd'\<rparr>))"
  by (simp add: crawl_company_page_def Let_def fill_contacts_def split: sum.splits)

lemma parse_company_page_cases:
  "parse_company_page sp r =
     (case bind_exn (spider_extract_description (response_soup r)) (\<lambda>d.
             longer_description d
               (fill_contacts (web_extract_email (response_soup r))
                  (spider_extract_address (response_soup r))
                  (web_extract_phone (response_soup r)) (spider_company_data sp))) of
        Inl e \<Rightarrow> (sp\<lparr>spider_company_data :=
                       fill_contacts (web_extract_email (response_soup r))
                         (spider_extract_address (response_soup r))
                         (web_extract_phone (response_soup r)) (spider_company_data sp)\<rparr>, Some e)
      | Inr cd' \<Rightarrow> (sp\<lparr>spider_company_data := cd'\<rparr>, None))"
  by (simp add: parse_company_page_def Let_def fill_contacts_def split: sum.splits)

lemma contact_not_description: "k \<in> contact_fields \<Longrightarrow> k \<noteq> ''description''"
  by (auto simp: contact_fields_def)

lemma crawl_company_page_contact:
  assumes "k \<in> contact_fields"
  shows "dict_get (company_data (crawl_company_page env c url)) k =
           (case http_get env url of
              Inl e \<Rightarrow> dict_get (company_data c) k
            | Inr s \<Rightarrow> dict_get (fill_contacts (web_extract_email s) (web_extract_address s)
                                   (web_extract_phone s) (company_data c)) k)"
proof (cases "http_get env url")
  case (Inl e)
  then show ?thesis by (simp add: crawl_company_page_cases)
next
  case (Inr s)
  define cd where "cd = fill_contacts (web_extract_email s) (web_extract_address s)
                          (web_extract_phone s) (company_data c)"
  show ?thesis
  proof (cases "bind_exn (web_extract_description s) (\<lambda>d. longer_description d cd)")
    case (Inl e)
    with Inr show ?thesis by (simp add: crawl_company_page_cases cd_def)
  next
    case r: (Inr cd')
    then obtain d where "longer_description d cd = Inr cd'"
      by (cases "web_extract_description s") simp_all
    from longer_description_get[OF this contact_not_description[OF assms]]
    have "dict_get cd' k = dict_get cd k" .
    with Inr r show ?thesis by (simp add: crawl_company_page_cases cd_def)
  qed
qed

lemma parse_company_page_contact:
  assumes "k \<in> contact_fields"
  shows "dict_get (spider_company_data (fst (parse_company_page sp r))) k =
           dict_get (fill_contacts (web_extract_email (response_soup r))
                       (spider_extract_address (response_soup r))
                       (web_extract_phone (response_soup r)) (spider_company_data sp)) k"
proof -
  define cd where "cd = fill_contacts (web_extract_email (response_soup r))
                          (spider_extract_address (response_soup r))
                          (web_extract_phone (response_soup r)) (spider_company_data sp)"
  show ?thesis
  proof (cases "bind_exn (spider_extract_description (response_soup r)) (\<lambda>d. longer_description d cd)")
    case (Inl e)
    then show ?thesis by (simp add: parse_company_page_cases cd_def)
  next
    case r: (Inr cd')
    then obtain d where "longer_description d cd = Inr cd'"
      by (cases "spider_extract_description (response_soup r)") simp_all
    from longer_description_get[OF this contact_not_description[OF assms]]
    have "dict_get cd' k = dict_get cd k" .
    with r show ?thesis by (simp add: parse_company_page_cases cd_def)
  qed
qed

lemma fill_contacts_value:
  assumes "contact_value e" and "contact_value a" and "contact_value p"
    and "contact_value (dict_get cd k)"
  shows "contact_value (dict_get (fill_contacts e a p cd) k)"
  using assms by (simp add: fill_contacts_get)

lemma fill_contacts_keeps:
  "dict_get cd k \<noteq> PNone \<Longrightarrow> contact_value (dict_get cd k) \<Longrightarrow>
   dict_get (fill_contacts e a p cd) k = dict_get cd k"
  by (auto simp: fill_contacts_get contact_value_def)

lemma crawl_company_page_value:
  assumes "k \<in> contact_fields" and "contact_value (dict_get (company_data c) k)"
  shows "contact_value (dict_get (company_data (crawl_company_page env c url)) k)"
  using assms(2) fill_contacts_value[OF email_value address_value phone_value]
  by (simp add: crawl_company_page_contact[OF assms(1)] split: sum.splits)

lemma parse_company_page_value:
  assumes "k \<in> contact_fields" and "contact_value (dict_get (spider_company_data sp) k)"
  shows "contact_value (dict_get (spider_company_data (fst (parse_company_page sp r))) k)"
  using assms(2) fill_contacts_value[OF email_value spider_address_value phone_value]
  by (simp add: parse_company_page_contact[OF assms(1)])

lemma parse_product_page_company:
  "spider_company_data (fst (parse_product_page env sp r)) = spider_company_data sp"
  by (simp add: parse_product_page_def split: sum.splits)

lemma callback_step_value:
  assumes "k \<in> contact_fields" and "contact_value (dict_get (spider_company_data sp) k)"
  shows "contact_value (dict_get (spider_company_data (callback_step env sp x)) k)"
  using assms parse_company_page_value[OF assms]
  by (cases "fst x") (simp_all add: callback_step_def parse_product_page_company)

lemma profile_contact_get:
  assumes "k \<in> contact_fields"
  shows "dict_get (dict_update cd
               [(''companyName'', n), (''website'', w), (''email'', e), (''address'', a),
                (''phone'', p), (''supplierType'', t), (''description'', d)]) k =
         (if k = ''email'' then e else if k = ''address'' then a else p)"
  using assms by (auto simp: contact_fields_def dict_update_Cons dict_update_Nil dict_get_set)

lemma web_profile_value:
  assumes "web_extract_company_profile env c0 s0 url0 = Inr c1" and "k \<in> contact_fields"
  shows "contact_value (dict_get (company_data c1) k)"
proof -
  from assms(1) obtain n where n: "web_extract_company_name env s0 url0 = Inr n"
    by (cases "web_extract_company_name env s0 url0") (simp_all add: web_extract_company_profile_def)
  with assms(1) obtain d where d: "web_extract_description s0 = Inr d"
    by (cases "web_extract_description s0") (simp_all add: web_extract_company_profile_def)
  from assms(1) n d have "company_data c1 = dict_update (company_data c0)
               [(''companyName'', PStr n), (''website'', PStr url0), (''email'', web_extract_email s0),
                (''address'', web_extract_address s0), (''phone'', web_extract_phone s0),
                (''supplierType'', PStr ''Packaging''), (''description'', d)]"
    by (auto simp: web_extract_company_profile_def)
  then show ?thesis
    using email_value[of s0] address_value[of s0] phone_value[of s0]
    by (simp add: profile_contact_get[OF assms(2)])
qed

lemma spider_profile_value:
  assumes "spider_extract_company_profile env sp0 r0 = Inr sp1" and "k \<in> contact_fields"
  shows "contact_value (dict_get (spider_company_data sp1) k)"
proof -
  define s0 where "s0 = response_soup r0"
  from assms(1) obtain n where n: "spider_extract_company_name env s0 (response_url r0) = Inr n"
    by (cases "spider_extract_company_name env s0 (response_url r0)")
       (simp_all add: spider_extract_company_profile_def Let_def s0_def)
  with assms(1) obtain d where d: "spider_extract_description s0 = Inr d"
    by (cases "spider_extract_description s0")
       (simp_all add: spider_extract_company_profile_def Let_def s0_def)
  from assms(1) n d have "spider_company_data sp1 = dict_update (spider_company_data sp0)
               [(''companyName'', PStr n), (''website'', PStr (response_url r0)),
                (''email'', web_extract_email s0),
                (''address'', spider_extract_address s0), (''phone'', web_extract_phone s0),
                (''supplierType'', PStr ''Packaging''), (''description'', d)]"
    by (auto simp: spider_extract_company_profile_def Let_def s0_def)
  then show ?thesis
    using email_value[of s0] spider_address_value[of s0] phone_value[of s0]
    by (simp add: profile_contact_get[OF assms(2)])
qed

text \<open>
  Claim C6. In every state the simple crawler reaches after the company profile of the
  main page and any number of company pages, a contact field (\<open>email\<close>, \<open>address\<close> or
  \<open>phone\<close>) that is not \<open>None\<close> has the same value after one more company page; in the
  Scrapy spider likewise, for every state reached after the profile and any sequence of
  callbacks. (The fields are assigned when falsy; the extractors return \<open>None\<close> or a
  non-empty string, so a field that is not \<open>None\<close> is truthy.)
\<close>

theorem contact_fields_set_once:
  assumes "k \<in> contact_fields"
  shows "(web_extract_company_profile env c0 s0 url0 = Inr c1 \<longrightarrow>
          dict_get (company_data (foldl (crawl_company_page env) c1 urls)) k \<noteq> PNone \<longrightarrow>
          dict_get (company_data (crawl_company_page env (foldl (crawl_company_page env) c1 urls) url)) k =
            dict_get (company_data (foldl (crawl_company_page env) c1 urls)) k) \<and>
         (spider_extract_company_profile env sp0 r0 = Inr sp1 \<longrightarrow>
          dict_get (spider_company_data (foldl (callback_step env) sp1 cbs)) k \<noteq> PNone \<longrightarrow>
          dict_get (spider_company_data (fst (parse_company_page (foldl (callback_step env) sp1 cbs) r))) k =
            dict_get (spider_company_data (foldl (callback_step env) sp1 cbs)) k)"
proof (intro conjI impI)
  assume p: "web_extract_company_profile env c0 s0 url0 = Inr c1"
    and n: "dict_get (company_data (foldl (crawl_company_page env) c1 urls)) k \<noteq> PNone"
  define c where "c = foldl (crawl_company_page env) c1 urls"
  have "contact_value (dict_get (company_data c) k)"
    unfolding c_def
    by (rule foldl_inv[where P = "\<lambda>c. contact_value (dict_get (company_data c) k)"])
       (simp_all add: crawl_company_page_value[OF assms] web_profile_value[OF p assms])
  with n have "dict_get (fill_contacts e a ph (company_data c)) k = dict_get (company_data c) k"
    for e a ph
    by (simp add: fill_contacts_keeps c_def)
  then show "dict_get (company_data (crawl_company_page env (foldl (crawl_company_page env) c1 urls) url)) k =
            dict_get (company_data (foldl (crawl_company_page env) c1 urls)) k"
    by (simp add: crawl_company_page_contact[OF assms] c_def split: sum.splits)
next
  assume p: "spider_extract_company_profile env sp0 r0 = Inr sp1"
    and n: "dict_get (spider_company_data (foldl (callback_step env) sp1 cbs)) k \<noteq> PNone"
  define sp where "sp = foldl (callback_step env) sp1 cbs"
  have "contact_value (dict_get (spider_company_data sp) k)"
    unfolding sp_def
    by (rule foldl_inv[where P = "\<lambda>sp. contact_value (dict_get (spider_company_data sp) k)"])
       (simp_all add: callback_step_value[OF assms] spider_profile_value[OF p assms])
  with n have "dict_get (fill_contacts e a ph (spider_company_data sp)) k = dict_get (spider_company_data sp) k"
    for e a ph
    by (simp add: fill_contacts_keeps sp_def)
  then show "dict_get (spider_company_data (fst (parse_company_page (foldl (callback_step env) sp1 cbs) r))) k =
            dict_get (spider_company_data (foldl (callback_step env) sp1 cbs)) k"
    by (simp add: parse_company_page_contact[OF assms] sp_def)
qed


text \<open>
  On \<open>contact_site\<close> the main page sets \<open>email\<close> and leaves \<open>phone\<close> at \<open>None\<close>; the
  contact page shows another address and a phone number: \<open>email\<close> keeps its value and
  \<open>phone\<close> is filled, in the crawler and in the spider.
\<close>

theorem contact_fields_set_once_witness:
  "web_extract_company_profile contact_site shop_crawler contact_main ''http://shop.test/'' =
     Inr contact_profiled \<and>
   dict_get (company_data contact_profiled) ''email'' = PStr ''sales@shop.test'' \<and>
   web_extract_email contact_page = PStr ''info@shop.test'' \<and>
   dict_get (company_data (crawl_company_page contact_site contact_profiled ''http://shop.test/contact''))
     ''email'' = PStr ''sales@shop.test'' \<and>
   dict_get (company_data (crawl_company_page contact_site contact_profiled ''http://shop.test/contact''))
     ''phone'' = PStr ''555-123-4567'' \<and>
   spider_extract_company_profile contact_site shop_spider (response_of ''http://shop.test/'' contact_main) =
     Inr spider_profiled \<and>
   dict_get (spider_company_data (fst (parse_company_page spider_profiled
       (response_of ''http://shop.test/contact'' contact_page)))) ''email'' = PStr ''sales@shop.test''"
proof -
  have k: "''email'' \<in> contact_fields"
    by (simp add: contact_fields_def)
  have a: "web_extract_company_profile contact_site shop_crawler contact_main ''http://shop.test/'' =
             Inr contact_profiled"
    by code_simp
  have b: "dict_get (company_data contact_profiled) ''email'' = PStr ''sales@shop.test''"
    by code_simp
  have c: "web_extract_email contact_page = PStr ''info@shop.test''"
    by code_simp
  have d: "dict_get (company_data (crawl_company_page contact_site contact_profiled ''http://shop.test/contact''))
             ''phone'' = PStr ''555-123-4567''"
    by code_simp
  have e: "spider_extract_company_profile contact_site shop_spider
             (response_of ''http://shop.test/'' contact_main) = Inr spider_profiled"
    by code_simp
  have f: "dict_get (spider_company_data spider_profiled) ''email'' = PStr ''sales@shop.test''"
    by code_simp
  from contact_fields_set_once[OF k, where env = contact_site and ?c0.0 = shop_crawler
      and ?s0.0 = contact_main and ?url0.0 = "''http://shop.test/''" and ?c1.0 = contact_profiled
      and urls = "[]" and url = "''http://shop.test/contact''" and ?sp0.0 = shop_spider
      and ?r0.0 = "response_of ''http://shop.test/'' contact_main" and ?sp1.0 = spider_profiled
      and cbs = "[]" and r = "response_of ''http://shop.test/contact'' contact_page"]
    a b c d e f
  show ?thesis by simp
qed

section \<open>The description that is \<open>None\<close>\<close>

lemma longer_description_unset:
  assumes "map_of cd ''description'' = Some PNone"
  shows "longer_description d cd = (if truthy d then Inl ''TypeError'' else Inr cd)"
  using assms by (cases d) (simp_all add: longer_description_def dict_get_default_def)

lemma longer_description_after_fill:
  assumes "map_of cd ''description'' = Some PNone"
  shows "longer_description d (fill_contacts e a p cd) =
           (if truthy d then Inl ''TypeError'' else Inr (fill_contacts e a p cd))"
  by (rule longer_description_unset) (simp add: fill_contacts_description assms)

text \<open>
  Claim C10. When the profile holds \<open>description = None\<close>, \<open>crawl_company_page\<close> leaves
  it \<open>None\<close>. If the page is fetched, the profile after the call is the profile with the
  three contact fields filled, whatever happens afterwards; and if the page has a
  candidate description (a truthy one), \<open>len(None)\<close> raises a \<open>TypeError\<close>, which the
  handler of the page prints to \<open>stderr\<close>. In the spider the same comparison raises the
  \<open>TypeError\<close> out of \<open>parse_company_page\<close>, with the same profile.
\<close>

theorem unset_description_never_replaced:
  "(map_of (company_data c) ''description'' = Some PNone \<longrightarrow>
      map_of (company_data (crawl_company_page env c url)) ''description'' = Some PNone \<and>
      (case http_get env url of
         Inl e \<Rightarrow> company_data (crawl_company_page env c url) = company_data c
       | Inr s \<Rightarrow>
           company_data (crawl_company_page env c url) =
             fill_contacts (web_extract_email s) (web_extract_address s) (web_extract_phone s)
               (company_data c) \<and>
           (case web_extract_description s of
              Inl e \<Rightarrow> stderr (crawl_company_page env c url) =
                         stderr c @ [page_error ''company'' url e]
            | Inr d \<Rightarrow> stderr (crawl_company_page env c url) =
                         stderr c @ (if truthy d then [page_error ''company'' url ''TypeError'']
                                     else [])))) \<and>
   (map_of (spider_company_data sp) ''description'' = Some PNone \<longrightarrow>
      spider_company_data (fst (parse_company_page sp r)) =
        fill_contacts (web_extract_email (response_soup r)) (spider_extract_address (response_soup r))
          (web_extract_phone (response_soup r)) (spider_company_data sp) \<and>
      map_of (spider_company_data (fst (parse_company_page sp r))) ''description'' = Some PNone \<and>
      snd (parse_company_page sp r) =
        (case spider_extract_description (response_soup r) of
           Inl e \<Rightarrow> Some e
         | Inr d \<Rightarrow> if truthy d then Some ''TypeError'' else None))"
proof (intro conjI impI)
  assume n: "map_of (company_data c) ''description'' = Some PNone"
  show "map_of (company_data (crawl_company_page env c url)) ''description'' = Some PNone"
  proof (cases "http_get env url")
    case (Inl e)
    with n show ?thesis by (simp add: crawl_company_page_cases)
  next
    case (Inr s)
    with n show ?thesis
      by (cases "web_extract_description s")
         (simp_all add: crawl_company_page_cases longer_description_after_fill fill_contacts_description)
  qed
  show "case http_get env url of
         Inl e \<Rightarrow> company_data (crawl_company_page env c url) = company_data c
       | Inr s \<Rightarrow>
           company_data (crawl_company_page env c url) =
             fill_contacts (web_extract_email s) (web_extract_address s) (web_extract_phone s)
               (company_data c) \<and>
           (case web_extract_description s of
              Inl e \<Rightarrow> stderr (crawl_company_page env c url) =
                         stderr c @ [page_error ''company'' url e]
            | Inr d \<Rightarrow> stderr (crawl_company_page env c url) =
                         stderr c @ (if truthy d then [page_error ''company'' url ''TypeError'']
                                     else []))"
  proof (cases "http_get env url")
    case (Inl e)
    then show ?thesis by (simp add: crawl_company_page_cases)
  next
    case (Inr s)
    with n show ?thesis
      by (cases "web_extract_description s")
         (simp_all add: crawl_company_page_cases longer_description_after_fill)
  qed
next
  assume n: "map_of (spider_company_data sp) ''description'' = Some PNone"
  show "spider_company_data (fst (parse_company_page sp r)) =
        fill_contacts (web_extract_email (response_soup r)) (spider_extract_address (response_soup r))
          (web_extract_phone (response_soup r)) (spider_company_data sp)"
    using n
    by (cases "spider_extract_description (response_soup r)")
       (simp_all add: parse_company_page_cases longer_description_after_fill)
  then show "map_of (spider_company_data (fst (parse_company_page sp r))) ''description'' = Some PNone"
    using n by (simp add: fill_contacts_description)
  show "snd (parse_company_page sp r) =
        (case spider_extract_description (response_soup r) of
           Inl e \<Rightarrow> Some e
         | Inr d \<Rightarrow> if truthy d then Some ''TypeError'' else None)"
    using n
    by (cases "spider_extract_description (response_soup r)")
       (simp_all add: parse_company_page_cases longer_description_after_fill)
qed

text \<open>
  On \<open>contact_site\<close> the main page has no description and the contact page has one: after
  the contact page the description is still \<open>None\<close>, the error is on \<open>stderr\<close>, and the
  phone number found on the page is in the profile.
\<close>

theorem unset_description_never_replaced_witness:
  "map_of (company_data contact_profiled) ''description'' = Some PNone \<and>
   web_extract_description contact_page = Inr (PStr ''Glass packaging since 1990'') \<and>
   map_of (company_data (crawl_company_page contact_site contact_profiled ''http://shop.test/contact''))
     ''description'' = Some PNone \<and>
   stderr (crawl_company_page contact_site contact_profiled ''http://shop.test/contact'') =
     [''Error crawling company page http://shop.test/contact: TypeError''] \<and>
   dict_get (company_data (crawl_company_page contact_site contact_profiled ''http://shop.test/contact''))
     ''phone'' = PStr ''555-123-4567'' \<and>
   snd (parse_company_page spider_profiled (response_of ''http://shop.test/contact'' contact_page)) =
     Some ''TypeError''"
proof -
  have a: "map_of (company_data contact_profiled) ''description'' = Some PNone"
    by code_simp
  have b: "web_extract_description contact_page = Inr (PStr ''Glass packaging since 1990'')"
    by code_simp
  have c: "stderr (crawl_company_page contact_site contact_profiled ''http://shop.test/contact'') =
             [''Error crawling company page http://shop.test/contact: TypeError'']"
    by code_simp
  have d: "dict_get (company_data (crawl_company_page contact_site contact_profiled
             ''http://shop.test/contact'')) ''phone'' = PStr ''555-123-4567''"
    by code_simp
  have e: "snd (parse_company_page spider_profiled (response_of ''http://shop.test/contact'' contact_page)) =
             Some ''TypeError''"
    by code_simp
  from unset_description_never_replaced[of contact_profiled contact_site "''http://shop.test/contact''"
      spider_profiled "response_of ''http://shop.test/contact'' contact_page"] a
  have "map_of (company_data (crawl_company_page contact_site contact_profiled ''http://shop.test/contact''))
          ''description'' = Some PNone"
    by blast
  with a b c d e show ?thesis by simp
qed

end
